theory Spec2Isabelle
  imports Main "HOL-Library.Char_ord" "HOL-Library.List_Lexorder"
begin

text \<open>
  A shallow embedding of parts of OctopusCopilot, a chat agent that answers questions
  about an Octopus Deploy instance: the deployments collected for a project
  (\<open>get_deployments_for_project\<close>), the tail of a deployment log handed to the language
  model (\<open>logs_callback\<close>), the chat handler and its error boundary
  (\<open>copilot_handler_internal\<close>, \<open>extract_query\<close>), two tool-handler wrappers and
  \<open>dictionary_has_value\<close>. Each section of definitions follows one source file and
  quotes the code it models; the theorems come after all definitions.
\<close>

section \<open>Python values and exceptions\<close>

text \<open>
  The repository is Python. The values that reach the functions modelled here are
  JSON-like: \<open>None\<close>, booleans, integers, strings, lists and dictionaries with string
  keys. A dictionary is an association list, the first binding of a key being the one
  that counts. Exceptions are values of \<open>exn\<close>; a computation that may raise returns
  \<open>exn + 'a\<close>, with \<open>Inl\<close> for the exception.
\<close>

datatype pyval =
    PyNone
  | PyBool bool
  | PyInt int
  | PyStr string
  | PyList "pyval list"
  | PyDict "(string \<times> pyval) list"

datatype exn =
    KeyError
  | TypeError
  | AttributeError
  | IndexError
  | StopIteration
  | UserNotLoggedIn
  | OctopusRequestFailed
  | GitHubRequestFailed
  | NotAuthorized
  | SpaceNotFound string
  | ResourceNotFound string string
  | UserNotConfigured
  | OctopusApiKeyInvalid
  | ValueError
  | OtherException string

text \<open>Python's truth value of an object (\<open>bool(v)\<close>, as used by \<open>not v\<close> and \<open>if v\<close>).\<close>

fun truthy :: "pyval \<Rightarrow> bool" where
  "truthy PyNone = False"
| "truthy (PyBool b) = b"
| "truthy (PyInt i) = (i \<noteq> 0)"
| "truthy (PyStr s) = (s \<noteq> [])"
| "truthy (PyList xs) = (xs \<noteq> [])"
| "truthy (PyDict kvs) = (kvs \<noteq> [])"

text \<open>\<open>len(v)\<close>: defined on strings, lists and dictionaries, a \<open>TypeError\<close> elsewhere.\<close>

fun py_len :: "pyval \<Rightarrow> exn + nat" where
  "py_len (PyStr s) = Inr (length s)"
| "py_len (PyList xs) = Inr (length xs)"
| "py_len (PyDict kvs) = Inr (length kvs)"
| "py_len v = Inl TypeError"

text \<open>\<open>d[k]\<close> on a dictionary: a \<open>KeyError\<close> when the key is absent.\<close>

definition dict_getitem :: "(string \<times> pyval) list \<Rightarrow> string \<Rightarrow> exn + pyval" where
  "dict_getitem d k = (case map_of d k of None \<Rightarrow> Inl KeyError | Some v \<Rightarrow> Inr v)"

section \<open>domain/sanitizers/dictionary\_sanitizer.py\<close>

text \<open>
  \<^verbatim>\<open>
  def dictionary_has_value(key, dictionary):
      if dictionary is None:
          return False
      if isinstance(dictionary, dict):
          if not dictionary[key]:
              return False
          value = dictionary[key]
          return len(value) > 0
  \<close>
  A function body that ends without \<open>return\<close> returns \<open>None\<close>.
\<close>

fun dictionary_has_value :: "string \<Rightarrow> pyval \<Rightarrow> exn + pyval" where
  "dictionary_has_value key PyNone = Inr (PyBool False)"
| "dictionary_has_value key (PyDict d) =
     (case dict_getitem d key of
        Inl e \<Rightarrow> Inl e
      | Inr v \<Rightarrow>
          if \<not> truthy v then Inr (PyBool False)
          else (case dict_getitem d key of
                  Inl e \<Rightarrow> Inl e
                | Inr value \<Rightarrow>
                    (case py_len value of
                       Inl e \<Rightarrow> Inl e
                     | Inr n \<Rightarrow> Inr (PyBool (n > 0)))))"
| "dictionary_has_value key v = Inr PyNone"

text \<open>Whether a value is a dictionary.\<close>

fun is_dict :: "pyval \<Rightarrow> bool" where
  "is_dict (PyDict d) = True"
| "is_dict v = False"

section \<open>domain/tools/wrapper: the tool-handler wrappers\<close>

text \<open>
  The language model calls a tool with keyword arguments: the call \<open>f(**kws)\<close> binds
  each declared parameter to its value in \<open>kws\<close>, or to its default \<open>None\<close>, and
  collects the remaining bindings, in order, in \<open>kwargs\<close>.
\<close>

definition bind_param :: "(string \<times> pyval) list \<Rightarrow> string \<Rightarrow> pyval" where
  "bind_param kws name = (case map_of kws name of None \<Rightarrow> PyNone | Some v \<Rightarrow> v)"

definition bind_kwargs :: "string list \<Rightarrow> (string \<times> pyval) list \<Rightarrow> (string \<times> pyval) list" where
  "bind_kwargs declared kws = filter (\<lambda>(k, v). k \<notin> set declared) kws"

text \<open>
  A logger is an optional function of two strings with an effect on a log \<open>'l\<close>;
  \<open>if logging: logging(a, b)\<close> calls it only when one was supplied.
\<close>

type_synonym 'l logger = "(string \<Rightarrow> string \<Rightarrow> 'l \<Rightarrow> 'l) option"

definition log_if :: "'l logger \<Rightarrow> string \<Rightarrow> string \<Rightarrow> 'l \<Rightarrow> 'l" where
  "log_if logging a b l = (case logging of None \<Rightarrow> l | Some f \<Rightarrow> f a b l)"

text \<open>
  \<^verbatim>\<open>
  for key, value in kwargs.items():
      if logging:
          logging(f"Unexpected Key: {key}", "Value: {value}")
  \<close>
  The second argument is not an f-string: the text \<open>Value: {value}\<close> is logged as it is.
\<close>

fun log_unexpected :: "'l logger \<Rightarrow> (string \<times> pyval) list \<Rightarrow> 'l \<Rightarrow> 'l" where
  "log_unexpected logging [] l = l"
| "log_unexpected logging ((key, v) # kwargs) l =
     log_unexpected logging kwargs (log_if logging (''Unexpected Key: '' @ key) ''Value: {value}'' l)"

definition deploy_release_params :: "string list" where
  "deploy_release_params =
     [''space_name'', ''project_name'', ''release_version'', ''environment_name'', ''tenant_name'']"

text \<open>
  \<^verbatim>\<open>
  def deploy_release_wrapper(query, callback, logging):
      def deploy_release(space_name=None, project_name=None, release_version=None,
                         environment_name=None, tenant_name=None, **kwargs):
          if logging:
              logging("Enter:", "deploy_release")
          for key, value in kwargs.items(): ...
          return callback(query, space_name, project_name, release_version,
                          environment_name, tenant_name)
      return deploy_release
  \<close>
  The model takes the keyword arguments of the call and the log, and returns the
  callback's result with the log.
\<close>

definition deploy_release_wrapper ::
  "'q \<Rightarrow> ('q \<Rightarrow> pyval \<Rightarrow> pyval \<Rightarrow> pyval \<Rightarrow> pyval \<Rightarrow> pyval \<Rightarrow> 'r) \<Rightarrow> 'l logger
   \<Rightarrow> (string \<times> pyval) list \<Rightarrow> 'l \<Rightarrow> 'r \<times> 'l" where
  "deploy_release_wrapper query callback logging kws l =
     (let space_name = bind_param kws ''space_name'';
          project_name = bind_param kws ''project_name'';
          release_version = bind_param kws ''release_version'';
          environment_name = bind_param kws ''environment_name'';
          tenant_name = bind_param kws ''tenant_name'';
          kwargs = bind_kwargs deploy_release_params kws;
          l1 = log_if logging ''Enter:'' ''deploy_release'' l;
          l2 = log_unexpected logging kwargs l1
      in (callback query space_name project_name release_version environment_name tenant_name, l2))"

text \<open>
  \<^verbatim>\<open>
  def octolint_unused_projects_wrapper(callback, logging):
      def octolint_unused_projects(space=None, **kwargs):
          for key, value in kwargs.items(): ...
          return callback(space)
      return octolint_unused_projects
  \<close>
\<close>

definition octolint_unused_projects_wrapper ::
  "(pyval \<Rightarrow> 'r) \<Rightarrow> 'l logger \<Rightarrow> (string \<times> pyval) list \<Rightarrow> 'l \<Rightarrow> 'r \<times> 'l" where
  "octolint_unused_projects_wrapper callback logging kws l =
     (let space = bind_param kws ''space'';
          kwargs = bind_kwargs [''space''] kws;
          l1 = log_unexpected logging kwargs l
      in (callback space, l1))"

section \<open>function\_app.py: the deployment-logs callback\<close>

text \<open>
  Python's slice \<open>xs[i:]\<close>: a negative index counts from the end, and an index outside
  the list is clamped to it.
\<close>

definition py_slice_from :: "'a list \<Rightarrow> int \<Rightarrow> 'a list" where
  "py_slice_from xs i =
     (let n = int (length xs);
          j = (if i < 0 then max (i + n) 0 else min i n)
      in drop (nat j) xs)"

text \<open>
  \<^verbatim>\<open>
  def logs_callback(original_query, messages, space, projects, environments, channel,
                    tenants, release):
      ...                                   # lines 803-827: resolve the arguments
      logs = timing_wrapper(
          lambda: get_deployment_logs(space, project, environment, tenant, release,
                                      api_key, url), "Deployment logs")
      # Get the end of the logs if we have exceeded our context limit
      logs = logs[-max_chars:]
      processed_query = update_query(original_query, sanitized_projects)
      context = {"input": processed_query, "context": logs}
      return llm_message_query(messages, context, log_query)
  \<close>
  The collaborators are not part of the repository's files and are parameters of the
  model: \<open>max_chars\<close> (a constant of \<open>domain.context.octopus_context\<close>);
  \<open>resolve_arguments\<close>, which stands for the lookups of lines 803-827 (API key,
  space, project, environment, tenant, each of which may raise) and returns what they
  resolved; \<open>get_deployment_logs\<close>; \<open>update_query\<close>; and \<open>llm_message_query\<close>, which
  receives the messages and the context dictionary.
\<close>

definition logs_callback ::
  "int \<Rightarrow> (string \<Rightarrow> exn + 'a) \<Rightarrow> ('a \<Rightarrow> pyval \<Rightarrow> exn + string) \<Rightarrow> (string \<Rightarrow> 'a \<Rightarrow> string)
   \<Rightarrow> ('m \<Rightarrow> (string \<times> string) list \<Rightarrow> exn + 'r) \<Rightarrow> string \<Rightarrow> 'm \<Rightarrow> pyval \<Rightarrow> exn + 'r" where
  "logs_callback max_chars resolve_arguments get_deployment_logs update_query llm_message_query
       original_query messages release =
     (case resolve_arguments original_query of
        Inl e \<Rightarrow> Inl e
      | Inr args \<Rightarrow>
          (case get_deployment_logs args release of
             Inl e \<Rightarrow> Inl e
           | Inr logs \<Rightarrow>
               (let logs = py_slice_from logs (- max_chars);
                    processed_query = update_query original_query args;
                    context = [(''input'', processed_query), (''context'', logs)]
                in llm_message_query messages context)))"

section \<open>function\_app.py: the chat handler\<close>

subsection \<open>The Python operations that \<open>extract_query\<close> applies to the parsed body\<close>

text \<open>
  \<open>str.strip()\<close> removes leading and trailing whitespace: the ASCII characters on
  which \<open>str.isspace\<close> holds (strings are modelled as ASCII text). \<open>bytes.strip()\<close>
  removes the six ASCII whitespace bytes.
\<close>

definition py_isspace :: "char \<Rightarrow> bool" where
  "py_isspace c = (c \<in> set [CHR 0x09, CHR 0x0A, CHR 0x0B, CHR 0x0C, CHR 0x0D,
                              CHR 0x1C, CHR 0x1D, CHR 0x1E, CHR 0x1F, CHR 0x20])"

definition py_strip :: "string \<Rightarrow> string" where
  "py_strip s = rev (dropWhile py_isspace (rev (dropWhile py_isspace s)))"

definition bytes_isspace :: "char \<Rightarrow> bool" where
  "bytes_isspace c = (c \<in> set [CHR 0x09, CHR 0x0A, CHR 0x0B, CHR 0x0C, CHR 0x0D, CHR 0x20])"

definition bytes_strip :: "string \<Rightarrow> string" where
  "bytes_strip s = rev (dropWhile bytes_isspace (rev (dropWhile bytes_isspace s)))"

text \<open>\<open>sub in s\<close> on strings: \<open>sub\<close> occurs in \<open>s\<close> as a contiguous run.\<close>

fun str_contains :: "string \<Rightarrow> string \<Rightarrow> bool" where
  "str_contains sub [] = (sub = [])"
| "str_contains sub (c # cs) = (take (length sub) (c # cs) = sub \<or> str_contains sub cs)"

text \<open>
  \<open>item in v\<close> for a string \<open>item\<close>: a key of a dictionary, an element of a list, a
  substring of a string; any other value is not iterable.
\<close>

fun py_contains :: "string \<Rightarrow> pyval \<Rightarrow> exn + bool" where
  "py_contains item (PyDict d) = Inr (item \<in> fst ` set d)"
| "py_contains item (PyList xs) = Inr (PyStr item \<in> set xs)"
| "py_contains item (PyStr s) = Inr (str_contains item s)"
| "py_contains item v = Inl TypeError"

text \<open>\<open>v.get(key)\<close>: only a dictionary has the method.\<close>

fun py_get :: "pyval \<Rightarrow> string \<Rightarrow> exn + pyval" where
  "py_get (PyDict d) key = Inr (case map_of d key of None \<Rightarrow> PyNone | Some v \<Rightarrow> v)"
| "py_get v key = Inl AttributeError"

text \<open>
  \<open>v[-1]\<close>: the last element of a list, the last character of a string; on a
  dictionary \<open>-1\<close> is looked up as a key, which a JSON object (string keys) never has.
\<close>

fun py_last_item :: "pyval \<Rightarrow> exn + pyval" where
  "py_last_item (PyList xs) = (if xs = [] then Inl IndexError else Inr (last xs))"
| "py_last_item (PyStr s) = (if s = [] then Inl IndexError else Inr (PyStr [last s]))"
| "py_last_item (PyDict d) = Inl KeyError"
| "py_last_item v = Inl TypeError"

text \<open>\<open>v.strip()\<close>: only a string has the method.\<close>

fun py_strip_method :: "pyval \<Rightarrow> exn + string" where
  "py_strip_method (PyStr s) = Inr (py_strip s)"
| "py_strip_method v = Inl AttributeError"

subsection \<open>Requests, responses and collaborators\<close>

text \<open>
  A request carries its query parameters and its body. A response carries a body, a
  status code (200 unless given) and headers. The handler's effects are recorded in a
  log: the queries dispatched to the language model, and the exceptions passed to
  \<open>handle_error\<close>, which logs them.
\<close>

record http_request =
  params :: "(string \<times> string) list"
  get_body :: string

record http_response =
  response_body :: string
  status_code :: int
  headers :: "(string \<times> string) list"

record handler_log =
  dispatched :: "string list"
  handled :: "exn list"

definition handle_error :: "exn \<Rightarrow> handler_log \<Rightarrow> handler_log" where
  "handle_error e l = l\<lparr>handled := handled l @ [e]\<rparr>"

definition HttpResponse :: "string \<Rightarrow> (string \<times> string) list \<Rightarrow> http_response" where
  "HttpResponse b hs = \<lparr>response_body = b, status_code = 200, headers = hs\<rparr>"

text \<open>
  What the handler calls and the repository's files do not hold:
  \<open>convert_to_sse_response\<close> (\<open>domain.transformers.sse_transformers\<close>), \<open>json.loads\<close>,
  the dispatch \<open>llm_tool_query(query, build_form_tools, log_query).call_function()\<close>,
  the constant \<open>NO_FUNCTION_RESPONSE\<close>, the process environment and
  \<open>urllib.parse.quote\<close>.
\<close>

record collaborators =
  convert_to_sse_response :: "string \<Rightarrow> string"
  json_loads :: "string \<Rightarrow> exn + pyval"
  llm_tool_query_call_function :: "string \<Rightarrow> exn + string"
  NO_FUNCTION_RESPONSE :: string
  environ :: "string \<Rightarrow> string option"
  quote :: "string \<Rightarrow> string"

text \<open>
  \<^verbatim>\<open>
  def get_sse_headers():
      return {'Content-Type': 'text/event-stream', 'Cache-Control': 'no-cache'}
  \<close>
\<close>

definition get_sse_headers :: "(string \<times> string) list" where
  "get_sse_headers = [(''Content-Type'', ''text/event-stream''), (''Cache-Control'', ''no-cache'')]"

subsection \<open>\<open>extract_query\<close>\<close>

text \<open>
  The \<open>try\<close> block of \<open>extract_query\<close>:
  \<^verbatim>\<open>
  body = json.loads(body_raw)
  if 'messages' in body and len(body.get('messages')) != 0:
      message = body.get('messages')[-1]
      if 'content' in message:
          return message.get('content').strip()
  \<close>
  It returns the content of the last message, the empty string when it falls through,
  or raises.
\<close>

definition last_message_content :: "(string \<Rightarrow> exn + pyval) \<Rightarrow> string \<Rightarrow> exn + string" where
  "last_message_content loads body_raw =
     (case loads body_raw of
        Inl e \<Rightarrow> Inl e
      | Inr body \<Rightarrow>
     (case py_contains ''messages'' body of
        Inl e \<Rightarrow> Inl e
      | Inr False \<Rightarrow> Inr ''''
      | Inr True \<Rightarrow>
     (case py_get body ''messages'' of
        Inl e \<Rightarrow> Inl e
      | Inr messages \<Rightarrow>
     (case py_len messages of
        Inl e \<Rightarrow> Inl e
      | Inr n \<Rightarrow>
          if n = 0 then Inr ''''
          else
     (case py_get body ''messages'' of
        Inl e \<Rightarrow> Inl e
      | Inr messages \<Rightarrow>
     (case py_last_item messages of
        Inl e \<Rightarrow> Inl e
      | Inr message \<Rightarrow>
     (case py_contains ''content'' message of
        Inl e \<Rightarrow> Inl e
      | Inr False \<Rightarrow> Inr ''''
      | Inr True \<Rightarrow>
     (case py_get message ''content'' of
        Inl e \<Rightarrow> Inl e
      | Inr content \<Rightarrow> py_strip_method content))))))))"

text \<open>
  \<^verbatim>\<open>
  body_raw = req.get_body()
  if not body_raw or not body_raw.strip():
      return ""
  try:
      ...
  except Exception as e:
      # Probably a malformed request. Just ignore it.
      handle_error(e)
      return ""
  return ""
  \<close>
\<close>

definition query_from_body ::
  "(string \<Rightarrow> exn + pyval) \<Rightarrow> http_request \<Rightarrow> handler_log \<Rightarrow> string \<times> handler_log" where
  "query_from_body loads req l =
     (let body_raw = get_body req in
      if body_raw = [] \<or> bytes_strip body_raw = [] then ('''', l)
      else (case last_message_content loads body_raw of
              Inl e \<Rightarrow> ('''', handle_error e l)
            | Inr content \<Rightarrow> (content, l)))"

text \<open>
  \<^verbatim>\<open>
  def extract_query(req):
      query = req.params.get("message")
      if query:
          return query.strip()
      ...
  \<close>
\<close>

definition extract_query ::
  "(string \<Rightarrow> exn + pyval) \<Rightarrow> http_request \<Rightarrow> handler_log \<Rightarrow> string \<times> handler_log" where
  "extract_query loads req l =
     (case map_of (params req) ''message'' of
        None \<Rightarrow> query_from_body loads req l
      | Some query \<Rightarrow>
          if query \<noteq> [] then (py_strip query, l)
          else query_from_body loads req l)"

subsection \<open>\<open>copilot_handler_internal\<close>\<close>

text \<open>
  \<^verbatim>\<open>
  def request_config_details():
      try:
          logger.info("User has not configured Octopus instance")
          return func.HttpResponse(convert_to_sse_response(
              f"To continue chatting please [log in](https://github.com/login/oauth/authorize?"
              + f"client_id={os.environ.get('GITHUB_CLIENT_ID')}"
              + f"&redirect_url={urllib.parse.quote(os.environ.get('GITHUB_CLIENT_REDIRECT'))}"
              + "&scope=user&allow_signup=false)"),
              status_code=200, headers=get_sse_headers())
      except Exception as e:
          handle_error(e)
          return func.HttpResponse(
              "data: An exception was raised. See the logs for more details.\n\n",
              status_code=500, headers=get_sse_headers())
  \<close>
  An unset variable is \<open>None\<close>: it is formatted as the text \<open>None\<close>, and
  \<open>urllib.parse.quote(None)\<close> raises \<open>TypeError\<close>.
\<close>

definition request_config_details :: "collaborators \<Rightarrow> handler_log \<Rightarrow> http_response \<times> handler_log" where
  "request_config_details c l =
     (case environ c ''GITHUB_CLIENT_REDIRECT'' of
        None \<Rightarrow>
          (\<lparr>response_body = ''data: An exception was raised. See the logs for more details.''
                              @ [CHR 0x0A, CHR 0x0A],
            status_code = 500, headers = get_sse_headers\<rparr>,
           handle_error TypeError l)
      | Some redirect \<Rightarrow>
          (\<lparr>response_body = convert_to_sse_response c
              (''To continue chatting please [log in](https://github.com/login/oauth/authorize?''
               @ ''client_id='' @ (case environ c ''GITHUB_CLIENT_ID'' of None \<Rightarrow> ''None'' | Some i \<Rightarrow> i)
               @ ''&redirect_url='' @ quote c redirect
               @ ''&scope=user&allow_signup=false)''),
            status_code = 200, headers = get_sse_headers\<rparr>,
           l))"

definition sample_question :: string where
  "sample_question = ''Ask a question like '' @ [CHR 0x22]
     @ ''What are the projects in the space called Default?'' @ [CHR 0x22]"

text \<open>
  The \<open>except\<close> clauses of \<open>copilot_handler_internal\<close>, in the source's order. The
  exception classes of \<open>domain.exceptions\<close> are taken as unrelated classes, so each is
  caught by the clause that names it; the last clause, \<open>except Exception\<close>, catches
  every other exception.
\<close>

fun handle_exception :: "collaborators \<Rightarrow> exn \<Rightarrow> handler_log \<Rightarrow> http_response \<times> handler_log" where
  "handle_exception c UserNotLoggedIn l =
     (HttpResponse (convert_to_sse_response c ''Your GitHub token is invalid.'') get_sse_headers, l)"
| "handle_exception c OctopusRequestFailed l =
     (HttpResponse (convert_to_sse_response c
        (''The request to the Octopus API failed. ''
         @ ''Either your API key is invalid, or there was an issue contacting the server.''))
        get_sse_headers,
      handle_error OctopusRequestFailed l)"
| "handle_exception c GitHubRequestFailed l =
     (HttpResponse (convert_to_sse_response c
        (''The request to the GitHub API failed. ''
         @ ''Your GitHub token is likely to be invalid.''))
        get_sse_headers,
      handle_error GitHubRequestFailed l)"
| "handle_exception c NotAuthorized l =
     (HttpResponse (convert_to_sse_response c ''You are not authorized.'') get_sse_headers, l)"
| "handle_exception c (SpaceNotFound space_name) l =
     (HttpResponse (convert_to_sse_response c
        (''The space '' @ [CHR 0x22] @ space_name @ [CHR 0x22] @ '' was not found. ''
         @ ''Either the space does not exist or the API key does not ''
         @ ''have permissions to access it.''))
        get_sse_headers, l)"
| "handle_exception c (ResourceNotFound resource_type resource_name) l =
     (HttpResponse (convert_to_sse_response c
        (''The '' @ resource_type @ '' '' @ [CHR 0x22] @ resource_name @ [CHR 0x22]
         @ '' was not found. ''
         @ ''Either the resource does not exist or the API key does not ''
         @ ''have permissions to access it.''))
        get_sse_headers, l)"
| "handle_exception c UserNotConfigured l = request_config_details c l"
| "handle_exception c OctopusApiKeyInvalid l = request_config_details c l"
| "handle_exception c ValueError l =
     (HttpResponse (convert_to_sse_response c (NO_FUNCTION_RESPONSE c)) get_sse_headers, l)"
| "handle_exception c e l =
     (HttpResponse (convert_to_sse_response c
        (''An unexpected error was thrown. This error has been logged. ''
         @ ''I'' @ [CHR 0x27] @ ''m sorry for the inconvenience.''))
        get_sse_headers,
      handle_error e l)"

text \<open>
  The \<open>try\<close> block:
  \<^verbatim>\<open>
  query = extract_query(req)
  logger.info("Query: " + query)
  if not query.strip():
      return func.HttpResponse(
          convert_to_sse_response("Ask a question like \"What are the projects ...?\""),
          headers=get_sse_headers())
  result = llm_tool_query(query, build_form_tools, log_query).call_function()
  return func.HttpResponse(convert_to_sse_response(result), headers=get_sse_headers())
  \<close>
  The dispatch to the language model, which selects and invokes a tool handler, is
  recorded in the log before it runs.
\<close>

definition try_body ::
  "collaborators \<Rightarrow> http_request \<Rightarrow> handler_log \<Rightarrow> (exn + http_response) \<times> handler_log" where
  "try_body c req l =
     (case extract_query (json_loads c) req l of
        (query, l1) \<Rightarrow>
          if py_strip query = [] then
            (Inr (HttpResponse (convert_to_sse_response c sample_question) get_sse_headers), l1)
          else
            (let l2 = l1\<lparr>dispatched := dispatched l1 @ [query]\<rparr> in
             case llm_tool_query_call_function c query of
               Inl e \<Rightarrow> (Inl e, l2)
             | Inr result \<Rightarrow>
                 (Inr (HttpResponse (convert_to_sse_response c result) get_sse_headers), l2)))"

definition copilot_handler_internal ::
  "collaborators \<Rightarrow> http_request \<Rightarrow> handler_log \<Rightarrow> http_response \<times> handler_log" where
  "copilot_handler_internal c req l =
     (case try_body c req l of
        (Inr response, l1) \<Rightarrow> (response, l1)
      | (Inl e, l1) \<Rightarrow> handle_exception c e l1)"

text \<open>
  A body is framed for the event stream when \<open>convert_to_sse_response\<close> produced it, or
  when it is a literal \<open>data:\<close> frame closed by an empty line. A response is a
  well-formed stream response when its body is framed and its headers are those of the
  event stream.
\<close>

definition sse_framed :: "(string \<Rightarrow> string) \<Rightarrow> string \<Rightarrow> bool" where
  "sse_framed conv b =
     ((\<exists>message. b = conv message)
      \<or> (\<exists>message. b = ''data: '' @ message @ [CHR 0x0A, CHR 0x0A]))"

definition well_formed_stream :: "collaborators \<Rightarrow> http_response \<Rightarrow> bool" where
  "well_formed_stream c r =
     (headers r = [(''Content-Type'', ''text/event-stream''), (''Cache-Control'', ''no-cache'')]
      \<and> sse_framed (convert_to_sse_response c) (response_body r))"

section \<open>domain/transformers/deployments\_from\_release.py\<close>

subsection \<open>The payloads of the platform API\<close>

text \<open>
  The API returns JSON objects; the model gives each kind of object a record with the
  keys that \<open>get_deployments_for_project\<close> reads. \<open>Id\<close> is written \<open>ID\<close>. A key whose
  value may be JSON \<open>null\<close> has an optional value. Projects, environments, tenants and
  channels are read through \<open>Id\<close> and \<open>Name\<close> only. A payload is taken to carry the
  keys of its record, so that reading one of them does not raise.
\<close>

record resource =
  ID :: string
  Name :: string

record release = resource +
  Version :: string
  ReleaseNotes :: "string option"

record deployment = resource +
  EnvironmentId :: string
  TenantId :: "string option"
  Created :: string
  TaskId :: "string option"
  ChannelId :: string
  ReleaseId :: string
  DeployedBy :: "string option"

record task = resource +
  State :: string
  Duration :: string

subsection \<open>The platform and the calls made to it\<close>

text \<open>
  The functions of \<open>infrastructure.octopus\<close> talk to the platform and keep caches: each
  is a function of the platform's state \<open>'w\<close> that returns a payload, or raises, and the
  state after the call. The model keeps, next to the platform's state, the list of the
  calls made so far.
\<close>

datatype api_call =
    GetProject string
  | GetProjectReleases string
  | GetEnvironment string
  | GetTenant string
  | GetReleaseDeployments string
  | GetTask string
  | GetChannel string

record 'w world =
  calls :: "api_call list"
  platform :: 'w

type_synonym ('w, 'a) fetch = "string \<Rightarrow> string \<Rightarrow> string \<Rightarrow> string \<Rightarrow> 'w \<Rightarrow> (exn + 'a) \<times> 'w"

text \<open>
  What the module imports; none of it is among the repository's files, so all of it is
  a parameter of the model. The fetchers take the space id, the name or id looked up,
  the API key and the URL, as in the source. \<open>get_project_releases\<close> and
  \<open>get_release_deployments\<close> return the list under \<open>"Items"\<close>. Dates are values of a
  linear order \<open>'d\<close>, as datetimes of one kind are under \<open><\<close>, \<open>min\<close> and \<open>max\<close>.
\<close>

record ('w, 'd) imported =
  ensure_string_not_empty :: "string \<Rightarrow> exn + unit"
  get_project :: "('w, resource) fetch"
  get_project_releases :: "string \<Rightarrow> string \<Rightarrow> string \<Rightarrow> string \<Rightarrow> nat \<Rightarrow> 'w \<Rightarrow> (exn + release list) \<times> 'w"
  sanitize_list :: "pyval \<Rightarrow> string list"
  get_environment_cached :: "('w, resource) fetch"
  get_tenant_cached :: "('w, resource) fetch"
  get_release_deployments :: "('w, deployment list) fetch"
  parse_unknown_format_date :: "pyval \<Rightarrow> exn + 'd"
  get_task :: "('w, task) fetch"
  get_channel_cached :: "('w, resource) fetch"
  get_key_or_none :: "resource \<Rightarrow> string \<Rightarrow> pyval"
  strip_markdown_urls :: "string option \<Rightarrow> string option"

text \<open>A call to the platform: it is recorded, then made.\<close>

definition api :: "api_call \<Rightarrow> ('w \<Rightarrow> (exn + 'a) \<times> 'w) \<Rightarrow> 'w world \<Rightarrow> (exn + 'a) \<times> 'w world" where
  "api c f s = (case f (platform s) of (r, w) \<Rightarrow> (r, \<lparr>calls = calls s @ [c], platform = w\<rparr>))"

text \<open>
  \<open>list(map(lambda name: fetch(space_id, name, api_key, octopus_url), names))\<close>: the
  names are looked up from left to right, and the first exception ends the lookup.
\<close>

fun map_fetch ::
  "(string \<Rightarrow> api_call) \<Rightarrow> ('w, 'a) fetch \<Rightarrow> string \<Rightarrow> string \<Rightarrow> string \<Rightarrow> string list
   \<Rightarrow> 'w world \<Rightarrow> (exn + 'a list) \<times> 'w world" where
  "map_fetch c f space_id api_key octopus_url [] s = (Inr [], s)"
| "map_fetch c f space_id api_key octopus_url (name # names) s =
     (case api (c name) (f space_id name api_key octopus_url) s of
        (Inl e, s1) \<Rightarrow> (Inl e, s1)
      | (Inr x, s1) \<Rightarrow>
          (case map_fetch c f space_id api_key octopus_url names s1 of
             (Inl e, s2) \<Rightarrow> (Inl e, s2)
           | (Inr xs, s2) \<Rightarrow> (Inr (x # xs), s2)))"

subsection \<open>The filters\<close>

text \<open>
  \<^verbatim>\<open>
  # Keep the deployment if it matches the environment, or if there were no environments
  if len(environments) != 0 and len(
          list(filter(lambda x: x["Id"] == deployment["EnvironmentId"], environments))) == 0:
      continue
  # Keep the deployment if it matches the tenant, or if there were no tenants
  if len(tenants) != 0 and len(
          list(filter(lambda x: x["Id"] == deployment["TenantId"], tenants))) == 0:
      continue
  \<close>
  Each function is the condition of its \<open>if\<close>: the deployment is skipped when it holds.
\<close>

definition skip_environment :: "resource list \<Rightarrow> deployment \<Rightarrow> bool" where
  "skip_environment environments deployment =
     (length environments \<noteq> 0
      \<and> length (filter (\<lambda>x. ID x = EnvironmentId deployment) environments) = 0)"

definition skip_tenant :: "resource list \<Rightarrow> deployment \<Rightarrow> bool" where
  "skip_tenant tenants deployment =
     (length tenants \<noteq> 0
      \<and> length (filter (\<lambda>x. Some (ID x) = TenantId deployment) tenants) = 0)"

text \<open>
  \<^verbatim>\<open>
  # If there were two dates, treat them as a range, and exclude anything outside the range
  if dates and isinstance(dates, list) and len(dates) == 2:
      created = parse_unknown_format_date(deployment["Created"])
      date1 = parse_unknown_format_date(dates[0])
      date2 = parse_unknown_format_date(dates[1])
      if created < min(date1, date2) or created > max(date1, date2):
          continue
  \<close>
  The result is whether the deployment is skipped; parsing may raise.
\<close>

definition skip_date :: "(pyval \<Rightarrow> exn + 'd::linorder) \<Rightarrow> pyval \<Rightarrow> deployment \<Rightarrow> exn + bool" where
  "skip_date parse dates deployment =
     (case dates of
        PyList [d0, d1] \<Rightarrow>
          (case parse (PyStr (Created deployment)) of
             Inl e \<Rightarrow> Inl e
           | Inr created \<Rightarrow>
          (case parse d0 of
             Inl e \<Rightarrow> Inl e
           | Inr date1 \<Rightarrow>
          (case parse d1 of
             Inl e \<Rightarrow> Inl e
           | Inr date2 \<Rightarrow>
               Inr (created < min date1 date2 \<or> created > max date1 date2))))
      | _ \<Rightarrow> Inr False)"

subsection \<open>The record built for a retained deployment\<close>

definition opt_str :: "string option \<Rightarrow> pyval" where
  "opt_str v = (case v of None \<Rightarrow> PyNone | Some s \<Rightarrow> PyStr s)"

text \<open>
  \<open>get_key_or_none(next(filter(lambda x: x["Id"] == id, xs)), "Name") if xs else None\<close>:
  \<open>next\<close> raises \<open>StopIteration\<close> when nothing matches.
\<close>

definition name_of_match ::
  "(resource \<Rightarrow> string \<Rightarrow> pyval) \<Rightarrow> (resource \<Rightarrow> bool) \<Rightarrow> resource list \<Rightarrow> exn + pyval" where
  "name_of_match key_or_none matches xs =
     (if xs \<noteq> [] then
        (case find matches xs of
           None \<Rightarrow> Inl StopIteration
         | Some x \<Rightarrow> Inr (key_or_none x ''Name''))
      else Inr PyNone)"

text \<open>The local variables of \<open>get_deployments_for_project\<close> that its loops read.\<close>

record locals =
  space_id :: string
  api_key :: string
  octopus_url :: string
  project :: resource
  environments :: "resource list"
  tenants :: "resource list"
  dates :: pyval
  max_results :: int

text \<open>The dictionary appended to \<open>deployments\<close> (lines 74-98), its values in the source's order.\<close>

definition deployment_record ::
  "('w, 'd) imported \<Rightarrow> locals \<Rightarrow> release \<Rightarrow> deployment \<Rightarrow> task option \<Rightarrow> resource
   \<Rightarrow> exn + (string \<times> pyval) list" where
  "deployment_record m v release deployment task channel =
     (case name_of_match (get_key_or_none m)
             (\<lambda>tenant. Some (ID tenant) = TenantId deployment) (tenants v) of
        Inl e \<Rightarrow> Inl e
      | Inr tenant_name \<Rightarrow>
     (case name_of_match (get_key_or_none m)
             (\<lambda>env. ID env = EnvironmentId deployment) (environments v) of
        Inl e \<Rightarrow> Inl e
      | Inr environment_name \<Rightarrow>
          Inr [(''SpaceId'', PyStr (space_id v)),
               (''ProjectId'', PyStr (ID (project v))),
               (''ProjectName'', PyStr (Name (project v))),
               (''ReleaseVersion'', PyStr (Version release)),
               (''DeploymentId'', PyStr (ID deployment)),
               (''TaskId'', opt_str (TaskId deployment)),
               (''TenantId'', opt_str (TenantId deployment)),
               (''TenantName'', tenant_name),
               (''ReleaseId'', PyStr (ReleaseId deployment)),
               (''EnvironmentId'', PyStr (EnvironmentId deployment)),
               (''EnvironmentName'', environment_name),
               (''ChannelId'', PyStr (ChannelId deployment)),
               (''ChannelName'', PyStr (Name channel)),
               (''Created'', PyStr (Created deployment)),
               (''TaskState'', (case task of None \<Rightarrow> PyNone | Some t \<Rightarrow> PyStr (State t))),
               (''TaskDuration'', (case task of None \<Rightarrow> PyNone | Some t \<Rightarrow> PyStr (Duration t))),
               (''ReleaseNotes'', opt_str (strip_markdown_urls m (ReleaseNotes release))),
               (''DeployedBy'', opt_str (DeployedBy deployment))]))"

subsection \<open>The loops\<close>

text \<open>
  \<^verbatim>\<open>
  task = get_task(space_id, deployment["TaskId"], api_key, octopus_url) if deployment.get(
      "TaskId") else None
  \<close>
\<close>

definition fetch_task ::
  "('w, 'd) imported \<Rightarrow> locals \<Rightarrow> deployment \<Rightarrow> 'w world \<Rightarrow> (exn + task option) \<times> 'w world" where
  "fetch_task m v deployment s =
     (case TaskId deployment of
        None \<Rightarrow> (Inr None, s)
      | Some task_id \<Rightarrow>
          if task_id = [] then (Inr None, s)
          else (case api (GetTask task_id)
                       (get_task m (space_id v) task_id (api_key v) (octopus_url v)) s of
                  (Inl e, s1) \<Rightarrow> (Inl e, s1)
                | (Inr t, s1) \<Rightarrow> (Inr (Some t), s1)))"

text \<open>
  The body of the inner loop up to the \<open>append\<close> (lines 51-98), for one deployment:
  the three filters, each of which may \<open>continue\<close> (the result is \<open>None\<close>: nothing to
  append), then the task and channel lookups and the record to append.
\<close>

definition enrich ::
  "('w, 'd::linorder) imported \<Rightarrow> locals \<Rightarrow> release \<Rightarrow> deployment \<Rightarrow> 'w world
   \<Rightarrow> (exn + (string \<times> pyval) list option) \<times> 'w world" where
  "enrich m v release deployment s =
     (if skip_environment (environments v) deployment then (Inr None, s)
      else if skip_tenant (tenants v) deployment then (Inr None, s)
      else
        (case skip_date (parse_unknown_format_date m) (dates v) deployment of
           Inl e \<Rightarrow> (Inl e, s)
         | Inr True \<Rightarrow> (Inr None, s)
         | Inr False \<Rightarrow>
        (case fetch_task m v deployment s of
           (Inl e, s1) \<Rightarrow> (Inl e, s1)
         | (Inr task, s1) \<Rightarrow>
        (case api (GetChannel (ChannelId deployment))
                (get_channel_cached m (space_id v) (ChannelId deployment) (api_key v)
                   (octopus_url v)) s1 of
           (Inl e, s2) \<Rightarrow> (Inl e, s2)
         | (Inr channel, s2) \<Rightarrow>
        (case deployment_record m v release deployment task channel of
           Inl e \<Rightarrow> (Inl e, s2)
         | Inr r \<Rightarrow> (Inr (Some r), s2))))))"

text \<open>
  \<^verbatim>\<open>
  for deployment in release_deployments["Items"]:
      ...                                   # filters, lookups
      deployments.append({...})
      if len(deployments) >= max_results:
          break
  \<close>
  The list \<open>deployments\<close> is threaded through the loop; \<open>break\<close> returns it.
\<close>

fun inner_loop ::
  "('w, 'd::linorder) imported \<Rightarrow> locals \<Rightarrow> release \<Rightarrow> deployment list \<Rightarrow> (string \<times> pyval) list list
   \<Rightarrow> 'w world \<Rightarrow> (exn + (string \<times> pyval) list list) \<times> 'w world" where
  "inner_loop m v release [] deployments s = (Inr deployments, s)"
| "inner_loop m v release (deployment # rest) deployments s =
     (case enrich m v release deployment s of
        (Inl e, s1) \<Rightarrow> (Inl e, s1)
      | (Inr None, s1) \<Rightarrow> inner_loop m v release rest deployments s1
      | (Inr (Some r), s1) \<Rightarrow>
          (let deployments = deployments @ [r] in
           if int (length deployments) \<ge> max_results v then (Inr deployments, s1)
           else inner_loop m v release rest deployments s1))"

text \<open>
  \<^verbatim>\<open>
  for release in releases["Items"]:
      release_deployments = get_release_deployments(space_id, release["Id"], api_key,
                                                    octopus_url)
      for deployment in release_deployments["Items"]:
          ...
      if len(deployments) >= max_results:
          break
  \<close>
\<close>

fun outer_loop ::
  "('w, 'd::linorder) imported \<Rightarrow> locals \<Rightarrow> release list \<Rightarrow> (string \<times> pyval) list list
   \<Rightarrow> 'w world \<Rightarrow> (exn + (string \<times> pyval) list list) \<times> 'w world" where
  "outer_loop m v [] deployments s = (Inr deployments, s)"
| "outer_loop m v (release # rest) deployments s =
     (case api (GetReleaseDeployments (ID release))
             (get_release_deployments m (space_id v) (ID release) (api_key v) (octopus_url v)) s of
        (Inl e, s1) \<Rightarrow> (Inl e, s1)
      | (Inr release_deployments, s1) \<Rightarrow>
          (case inner_loop m v release release_deployments deployments s1 of
             (Inl e, s2) \<Rightarrow> (Inl e, s2)
           | (Inr deployments, s2) \<Rightarrow>
               if int (length deployments) \<ge> max_results v then (Inr deployments, s2)
               else outer_loop m v rest deployments s2))"

text \<open>
  Python's slice \<open>xs[:i]\<close>: a negative index counts from the end, and an index outside
  the list is clamped to it.
\<close>

definition py_slice_to :: "'a list \<Rightarrow> int \<Rightarrow> 'a list" where
  "py_slice_to xs i =
     (let n = int (length xs);
          j = (if i < 0 then max (i + n) 0 else min i n)
      in take (nat j) xs)"

subsection \<open>\<open>get_deployments_for_project\<close>\<close>

text \<open>The four \<open>ensure_string_not_empty\<close> checks at the head of the function.\<close>

definition ensure_arguments :: "('w, 'd) imported \<Rightarrow> string \<Rightarrow> string \<Rightarrow> string \<Rightarrow> string \<Rightarrow> exn + unit" where
  "ensure_arguments m space project_name key url =
     (case ensure_string_not_empty m space of
        Inl e \<Rightarrow> Inl e
      | Inr u \<Rightarrow>
     (case ensure_string_not_empty m project_name of
        Inl e \<Rightarrow> Inl e
      | Inr u \<Rightarrow>
     (case ensure_string_not_empty m key of
        Inl e \<Rightarrow> Inl e
      | Inr u \<Rightarrow> ensure_string_not_empty m url)))"

text \<open>
  \<^verbatim>\<open>
  def get_deployments_for_project(space_id, project_name, environment_names, tenant_names,
                                  api_key, octopus_url, dates, max_results=max_context):
      ensure_string_not_empty(...)          # four checks
      project = get_project(space_id, project_name, api_key, octopus_url)
      releases = get_project_releases(space_id, project["Id"], api_key, octopus_url, 100)
      environment_names = sanitize_list(environment_names)
      tenant_names = sanitize_list(tenant_names)
      environments = list(map(lambda env: get_environment_cached(...), environment_names)) \
          if environment_names else []
      tenants = list(map(lambda tenant: get_tenant_cached(...), tenant_names)) \
          if tenant_names else []
  \<close>
  The statements before the loops: they resolve the project, its releases, the
  environments and the tenants, and leave the local variables that the loops read.
\<close>

definition prepare ::
  "('w, 'd) imported \<Rightarrow> string \<Rightarrow> string \<Rightarrow> pyval \<Rightarrow> pyval \<Rightarrow> string \<Rightarrow> string \<Rightarrow> pyval \<Rightarrow> int
   \<Rightarrow> 'w world \<Rightarrow> (exn + locals \<times> release list) \<times> 'w world" where
  "prepare m space project_name environment_names tenant_names key url dates_arg max_res s =
     (case ensure_arguments m space project_name key url of
        Inl e \<Rightarrow> (Inl e, s)
      | Inr u \<Rightarrow>
     (case api (GetProject project_name) (get_project m space project_name key url) s of
        (Inl e, s1) \<Rightarrow> (Inl e, s1)
      | (Inr proj, s1) \<Rightarrow>
     (case api (GetProjectReleases (ID proj))
             (get_project_releases m space (ID proj) key url 100) s1 of
        (Inl e, s2) \<Rightarrow> (Inl e, s2)
      | (Inr releases, s2) \<Rightarrow>
     (case map_fetch GetEnvironment (get_environment_cached m) space key url
             (sanitize_list m environment_names) s2 of
        (Inl e, s3) \<Rightarrow> (Inl e, s3)
      | (Inr envs, s3) \<Rightarrow>
     (case map_fetch GetTenant (get_tenant_cached m) space key url
             (sanitize_list m tenant_names) s3 of
        (Inl e, s4) \<Rightarrow> (Inl e, s4)
      | (Inr tens, s4) \<Rightarrow>
          (Inr (\<lparr>space_id = space, api_key = key, octopus_url = url, project = proj,
                 environments = envs, tenants = tens, dates = dates_arg,
                 max_results = max_res\<rparr>, releases), s4))))))"

text \<open>
  \<^verbatim>\<open>
      deployments = []
      for release in releases["Items"]: ...
      return {"Deployments": deployments[:max_results]}
  \<close>
  The model returns the list under \<open>"Deployments"\<close>, or the exception raised, and the
  world after the call.
\<close>

definition get_deployments_for_project ::
  "('w, 'd::linorder) imported \<Rightarrow> string \<Rightarrow> string \<Rightarrow> pyval \<Rightarrow> pyval \<Rightarrow> string \<Rightarrow> string \<Rightarrow> pyval \<Rightarrow> int
   \<Rightarrow> 'w world \<Rightarrow> (exn + (string \<times> pyval) list list) \<times> 'w world" where
  "get_deployments_for_project m space project_name environment_names tenant_names key url
       dates_arg max_res s =
     (case prepare m space project_name environment_names tenant_names key url dates_arg
             max_res s of
        (Inl e, s4) \<Rightarrow> (Inl e, s4)
      | (Inr (v, releases), s4) \<Rightarrow>
          (case outer_loop m v releases [] s4 of
             (Inl e, s5) \<Rightarrow> (Inl e, s5)
           | (Inr deployments, s5) \<Rightarrow> (Inr (py_slice_to deployments max_res), s5)))"

text \<open>
  The same imports on a platform that lists only the first \<open>k\<close> releases of a project:
  used to say that a call does not depend on the releases after them.
\<close>

definition first_releases_only :: "nat \<Rightarrow> ('w, 'd) imported \<Rightarrow> ('w, 'd) imported" where
  "first_releases_only k m =
     m\<lparr>get_project_releases := (\<lambda>space proj key url n w.
          case get_project_releases m space proj key url n w of
            (Inl e, w1) \<Rightarrow> (Inl e, w1)
          | (Inr releases, w1) \<Rightarrow> (Inr (take k releases), w1))\<rparr>"

subsection \<open>What a call did, read off the world\<close>





section \<open>A sample platform\<close>

text \<open>
  A platform with one project and two releases, the newest first: \<open>Releases-2\<close> was
  deployed once, to \<open>Environments-2\<close>; \<open>Releases-1\<close> was deployed twice, to
  \<open>Environments-1\<close>. Its state counts the requests served. Dates are ISO strings in
  their lexicographic order. It is the concrete input at which the theorems below are
  instantiated.
\<close>

definition sample_deployment :: "string \<Rightarrow> string \<Rightarrow> string \<Rightarrow> string \<Rightarrow> deployment" where
  "sample_deployment i rel env created =
     \<lparr>ID = i, Name = ''Deploy'', EnvironmentId = env, TenantId = None, Created = created,
      TaskId = Some ''ServerTasks-1'', ChannelId = ''Channels-1'', ReleaseId = rel,
      DeployedBy = Some ''admin''\<rparr>"

definition sample_releases :: "release list" where
  "sample_releases =
     [\<lparr>ID = ''Releases-2'', Name = ''2.0'', Version = ''2.0'', ReleaseNotes = None\<rparr>,
      \<lparr>ID = ''Releases-1'', Name = ''1.0'', Version = ''1.0'', ReleaseNotes = Some ''first''\<rparr>]"

definition sample_release_deployments :: "string \<Rightarrow> deployment list" where
  "sample_release_deployments rel =
     (if rel = ''Releases-2'' then
        [sample_deployment ''Deployments-3'' ''Releases-2'' ''Environments-2'' ''2024-01-15'']
      else
        [sample_deployment ''Deployments-1'' ''Releases-1'' ''Environments-1'' ''2024-01-05'',
         sample_deployment ''Deployments-2'' ''Releases-1'' ''Environments-1'' ''2024-01-20''])"

definition sample_environment :: "string \<Rightarrow> resource" where
  "sample_environment name =
     \<lparr>ID = (if name = ''Dev'' then ''Environments-1'' else ''Environments-2''), Name = name\<rparr>"

definition sample_platform :: "(nat, string) imported" where
  "sample_platform =
     \<lparr>ensure_string_not_empty = (\<lambda>s. if s = [] then Inl ValueError else Inr ()),
      get_project = (\<lambda>space name key url w. (Inr \<lparr>ID = ''Projects-1'', Name = name\<rparr>, Suc w)),
      get_project_releases = (\<lambda>space proj key url n w. (Inr sample_releases, Suc w)),
      sanitize_list = (\<lambda>v. case v of
                            PyList xs \<Rightarrow> concat (map (\<lambda>x. case x of PyStr s \<Rightarrow> [s] | _ \<Rightarrow> []) xs)
                          | _ \<Rightarrow> []),
      get_environment_cached = (\<lambda>space name key url w. (Inr (sample_environment name), Suc w)),
      get_tenant_cached = (\<lambda>space name key url w. (Inr \<lparr>ID = ''Tenants-1'', Name = name\<rparr>, Suc w)),
      get_release_deployments = (\<lambda>space rel key url w. (Inr (sample_release_deployments rel), Suc w)),
      parse_unknown_format_date = (\<lambda>v. case v of PyStr s \<Rightarrow> Inr s | _ \<Rightarrow> Inl TypeError),
      get_task = (\<lambda>space t key url w.
                    (Inr \<lparr>ID = t, Name = ''Deploy'', State = ''Success'', Duration = ''1 minute''\<rparr>, Suc w)),
      get_channel_cached = (\<lambda>space c key url w. (Inr \<lparr>ID = c, Name = ''Default''\<rparr>, Suc w)),
      get_key_or_none = (\<lambda>r k. if k = ''Name'' then PyStr (Name r) else PyNone),
      strip_markdown_urls = (\<lambda>notes. notes)\<rparr>"

definition sample_world :: "nat world" where
  "sample_world = \<lparr>calls = [], platform = 0\<rparr>"

text \<open>The call made in the examples: no filters but those given, and the cap given.\<close>

definition sample_call ::
  "(nat, string) imported \<Rightarrow> pyval \<Rightarrow> pyval \<Rightarrow> int \<Rightarrow> (exn + (string \<times> pyval) list list) \<times> nat world" where
  "sample_call m environment_names dates_arg cap =
     get_deployments_for_project m ''Spaces-1'' ''WebApp'' environment_names PyNone
       ''API-KEY'' ''https://octopus.example'' dates_arg cap sample_world"

text \<open>The ids of the deployments returned by a call that did not raise.\<close>

definition returned_ids :: "(exn + (string \<times> pyval) list list) \<times> 'w \<Rightarrow> pyval list option" where
  "returned_ids r =
     (case fst r of
        Inl e \<Rightarrow> None
      | Inr result \<Rightarrow> Some (map (\<lambda>d. case map_of d ''DeploymentId'' of None \<Rightarrow> PyNone | Some i \<Rightarrow> i) result))"

text \<open>The local variables of that call when no filter is given.\<close>

definition sample_locals :: "int \<Rightarrow> locals" where
  "sample_locals cap =
     \<lparr>space_id = ''Spaces-1'', api_key = ''API-KEY'', octopus_url = ''https://octopus.example'',
      project = \<lparr>ID = ''Projects-1'', Name = ''WebApp''\<rparr>, environments = [], tenants = [],
      dates = PyNone, max_results = cap\<rparr>"




section \<open>Theorems\<close>

subsection \<open>\<open>dictionary_has_value\<close>\<close>

text \<open>
  C9. \<open>dictionary_has_value(k, d)\<close> returns \<open>False\<close> when \<open>d\<close> is \<open>None\<close>; when
  \<open>d\<close> is a dictionary without the key \<open>k\<close> it raises \<open>KeyError\<close> (it does not return
  \<open>False\<close>); and when \<open>d\<close> is neither \<open>None\<close> nor a dictionary it returns \<open>None\<close>,
  which is not a boolean.
\<close>

theorem dictionary_has_value_cases:
  "dictionary_has_value k PyNone = Inr (PyBool False)
   \<and> (k \<notin> fst ` set d \<longrightarrow> dictionary_has_value k (PyDict d) = Inl KeyError)
   \<and> (v \<noteq> PyNone \<and> \<not> is_dict v \<longrightarrow> dictionary_has_value k v = Inr PyNone)"
proof (intro conjI impI)
  show "dictionary_has_value k PyNone = Inr (PyBool False)" by simp
next
  assume "k \<notin> fst ` set d"
  then have "map_of d k = None" by (simp add: map_of_eq_None_iff)
  then show "dictionary_has_value k (PyDict d) = Inl KeyError"
    by (simp add: dict_getitem_def)
next
  assume "v \<noteq> PyNone \<and> \<not> is_dict v"
  then show "dictionary_has_value k v = Inr PyNone" by (cases v) simp_all
qed

theorem dictionary_has_value_cases_witness:
  "dictionary_has_value ''a'' PyNone = Inr (PyBool False)
   \<and> ''a'' \<notin> fst ` set [(''b'', PyStr ''x'')]
   \<and> dictionary_has_value ''a'' (PyDict [(''b'', PyStr ''x'')]) = Inl KeyError
   \<and> PyInt 3 \<noteq> PyNone \<and> \<not> is_dict (PyInt 3)
   \<and> dictionary_has_value ''a'' (PyInt 3) = Inr PyNone"
  using dictionary_has_value_cases [of "''a''" "[(''b'', PyStr ''x'')]" "PyInt 3"]
  by simp

subsection \<open>The tool-handler wrappers\<close>

lemma bind_param_append:
  assumes "name \<notin> fst ` set extra"
  shows "bind_param (kws @ extra) name = bind_param kws name"
proof -
  from assms have "map_of extra name = None"
    by (simp add: map_of_eq_None_iff)
  then have "map_of (kws @ extra) name = map_of kws name"
    by (cases "map_of kws name") (simp_all add: map_add_def)
  then show ?thesis
    by (simp add: bind_param_def)
qed

lemma bind_kwargs_append:
  assumes "\<forall>k \<in> fst ` set extra. k \<notin> set declared"
  shows "bind_kwargs declared (kws @ extra) = bind_kwargs declared kws @ extra"
proof -
  from assms have "filter (\<lambda>(k, v). k \<notin> set declared) extra = extra"
    by (auto simp: filter_id_conv)
  then show ?thesis
    by (simp add: bind_kwargs_def)
qed

lemma log_unexpected_None: "log_unexpected None kwargs l = l"
  by (induction kwargs arbitrary: l) (auto simp: log_if_def)

lemma log_unexpected_Some:
  "log_unexpected (Some f) kwargs l
     = foldl (\<lambda>l (k, v). f (''Unexpected Key: '' @ k) ''Value: {value}'' l) l kwargs"
  by (induction kwargs arbitrary: l) (auto simp: log_if_def)

lemma log_unexpected_append:
  "log_unexpected lg (xs @ ys) l = log_unexpected lg ys (log_unexpected lg xs l)"
  by (induction xs arbitrary: l) auto

text \<open>
  C6. A tool-handler wrapper called with extra keyword arguments, that is, with keys
  that are not among its own declared parameters, returns what the call without them
  returns, namely the callback's result on the declared parameters: the extra keys
  never reach the callback and never reject the call. They are only logged: with a
  logger \<open>f\<close> the log of the call is the log of the call without them followed by one
  entry \<open>f "Unexpected Key: k" "Value: {value}"\<close> for each extra key \<open>k\<close>, in order; with
  no logger the log is left as it was. This holds of \<open>deploy_release\<close> for every key
  outside its five parameters, and of \<open>octolint_unused_projects\<close> for every key but
  \<open>space\<close>.
\<close>

theorem wrappers_ignore_extra_keys:
  "((\<forall>k \<in> fst ` set extra. k \<notin> set deploy_release_params) \<longrightarrow>
      fst (deploy_release_wrapper q cb lg (kws @ extra) l)
        = fst (deploy_release_wrapper q cb lg kws l)
      \<and> fst (deploy_release_wrapper q cb lg (kws @ extra) l)
        = cb q (bind_param kws ''space_name'') (bind_param kws ''project_name'')
            (bind_param kws ''release_version'') (bind_param kws ''environment_name'')
            (bind_param kws ''tenant_name'')
      \<and> snd (deploy_release_wrapper q cb (Some f) (kws @ extra) l)
        = foldl (\<lambda>l (k, v). f (''Unexpected Key: '' @ k) ''Value: {value}'' l)
            (snd (deploy_release_wrapper q cb (Some f) kws l)) extra
      \<and> snd (deploy_release_wrapper q cb None (kws @ extra) l) = l)
   \<and> (''space'' \<notin> fst ` set extra' \<longrightarrow>
      fst (octolint_unused_projects_wrapper cb' lg (kws @ extra') l)
        = fst (octolint_unused_projects_wrapper cb' lg kws l)
      \<and> fst (octolint_unused_projects_wrapper cb' lg (kws @ extra') l)
        = cb' (bind_param kws ''space'')
      \<and> snd (octolint_unused_projects_wrapper cb' (Some f) (kws @ extra') l)
        = foldl (\<lambda>l (k, v). f (''Unexpected Key: '' @ k) ''Value: {value}'' l)
            (snd (octolint_unused_projects_wrapper cb' (Some f) kws l)) extra'
      \<and> snd (octolint_unused_projects_wrapper cb' None (kws @ extra') l) = l)"
proof (intro conjI impI)
  assume a: "\<forall>k \<in> fst ` set extra. k \<notin> set deploy_release_params"
  have p: "bind_param (kws @ extra) n = bind_param kws n"
    if "n \<in> set deploy_release_params" for n
    using that a by (intro bind_param_append) blast
  have params: "bind_param (kws @ extra) ''space_name'' = bind_param kws ''space_name''"
    "bind_param (kws @ extra) ''project_name'' = bind_param kws ''project_name''"
    "bind_param (kws @ extra) ''release_version'' = bind_param kws ''release_version''"
    "bind_param (kws @ extra) ''environment_name'' = bind_param kws ''environment_name''"
    "bind_param (kws @ extra) ''tenant_name'' = bind_param kws ''tenant_name''"
    by (simp_all add: p deploy_release_params_def)
  show "fst (deploy_release_wrapper q cb lg (kws @ extra) l)
      = fst (deploy_release_wrapper q cb lg kws l)"
    by (simp add: deploy_release_wrapper_def Let_def params)
  show "fst (deploy_release_wrapper q cb lg (kws @ extra) l)
      = cb q (bind_param kws ''space_name'') (bind_param kws ''project_name'')
          (bind_param kws ''release_version'') (bind_param kws ''environment_name'')
          (bind_param kws ''tenant_name'')"
    by (simp add: deploy_release_wrapper_def Let_def params)
  show "snd (deploy_release_wrapper q cb (Some f) (kws @ extra) l)
      = foldl (\<lambda>l (k, v). f (''Unexpected Key: '' @ k) ''Value: {value}'' l)
          (snd (deploy_release_wrapper q cb (Some f) kws l)) extra"
    by (simp add: deploy_release_wrapper_def Let_def bind_kwargs_append [OF a]
        log_unexpected_append log_unexpected_Some [of f extra])
  show "snd (deploy_release_wrapper q cb None (kws @ extra) l) = l"
    by (simp add: deploy_release_wrapper_def Let_def log_unexpected_None log_if_def)
next
  assume a: "''space'' \<notin> fst ` set extra'"
  then have s: "bind_param (kws @ extra') ''space'' = bind_param kws ''space''"
    by (rule bind_param_append)
  from a have k: "\<forall>k \<in> fst ` set extra'. k \<notin> set [''space'']"
    by (metis empty_iff empty_set set_ConsD)
  show "fst (octolint_unused_projects_wrapper cb' lg (kws @ extra') l)
      = fst (octolint_unused_projects_wrapper cb' lg kws l)"
    by (simp add: octolint_unused_projects_wrapper_def Let_def s)
  show "fst (octolint_unused_projects_wrapper cb' lg (kws @ extra') l)
      = cb' (bind_param kws ''space'')"
    by (simp add: octolint_unused_projects_wrapper_def Let_def s)
  show "snd (octolint_unused_projects_wrapper cb' (Some f) (kws @ extra') l)
      = foldl (\<lambda>l (k, v). f (''Unexpected Key: '' @ k) ''Value: {value}'' l)
          (snd (octolint_unused_projects_wrapper cb' (Some f) kws l)) extra'"
    by (simp add: octolint_unused_projects_wrapper_def Let_def bind_kwargs_append [OF k]
        log_unexpected_append log_unexpected_Some [of f extra'])
  show "snd (octolint_unused_projects_wrapper cb' None (kws @ extra') l) = l"
    by (simp add: octolint_unused_projects_wrapper_def Let_def log_unexpected_None)
qed

text \<open>
  \<open>deploy_release\<close> called with the extra keys \<open>space\<close> and \<open>colour\<close>, and
  \<open>octolint_unused_projects\<close> called with the extra key \<open>space_name\<close>, with a logger that
  appends its two arguments to a list: the callbacks receive the declared parameters,
  and each extra key is logged.
\<close>

theorem wrappers_ignore_extra_keys_witness:
  "deploy_release_wrapper ''q'' (\<lambda>q a b c d e. [a, b, c, d, e]) (Some (\<lambda>a b l. l @ [(a, b)]))
       ([(''project_name'', PyStr ''WebApp'')]
        @ [(''space'', PyStr ''Default''), (''colour'', PyStr ''red'')]) []
     = ([PyNone, PyStr ''WebApp'', PyNone, PyNone, PyNone],
        [(''Enter:'', ''deploy_release''),
         (''Unexpected Key: space'', ''Value: {value}''),
         (''Unexpected Key: colour'', ''Value: {value}'')])
   \<and> octolint_unused_projects_wrapper (\<lambda>a. a) (Some (\<lambda>a b l. l @ [(a, b)]))
       ([(''space'', PyStr ''Default'')] @ [(''space_name'', PyStr ''Other'')]) []
     = (PyStr ''Default'', [(''Unexpected Key: space_name'', ''Value: {value}'')])"
proof -
  let ?cb = "\<lambda>(q::string) a b c d e. [a, b, c, d, e :: pyval]"
  let ?f = "\<lambda>(a::string) (b::string) l. l @ [(a, b)]"
  let ?kws = "[(''project_name'', PyStr ''WebApp'')]"
  let ?extra = "[(''space'', PyStr ''Default''), (''colour'', PyStr ''red'')]"
  let ?kws' = "[(''space'', PyStr ''Default'')]"
  let ?extra' = "[(''space_name'', PyStr ''Other'')]"
  have h1: "\<forall>k \<in> fst ` set ?extra. k \<notin> set deploy_release_params"
    by (simp add: deploy_release_params_def)
  have h2: "''space'' \<notin> fst ` set ?extra'"
    by simp
  have b1: "deploy_release_wrapper ''q'' ?cb (Some ?f) ?kws []
      = ([PyNone, PyStr ''WebApp'', PyNone, PyNone, PyNone], [(''Enter:'', ''deploy_release'')])"
    by (simp add: deploy_release_wrapper_def bind_param_def bind_kwargs_def
        deploy_release_params_def log_if_def)
  have b2: "octolint_unused_projects_wrapper (\<lambda>a. a) (Some ?f) ?kws' [] = (PyStr ''Default'', [])"
    by (simp add: octolint_unused_projects_wrapper_def bind_param_def bind_kwargs_def)
  note inst = wrappers_ignore_extra_keys [where extra = ?extra and extra' = ?extra'
      and q = "''q''" and cb = ?cb and lg = "Some ?f" and f = ?f and l = "[]" and cb' = "\<lambda>a. a"]
  from inst [where kws = ?kws] h1 b1
  have "deploy_release_wrapper ''q'' ?cb (Some ?f) (?kws @ ?extra) []
      = ([PyNone, PyStr ''WebApp'', PyNone, PyNone, PyNone],
         [(''Enter:'', ''deploy_release''),
          (''Unexpected Key: space'', ''Value: {value}''),
          (''Unexpected Key: colour'', ''Value: {value}'')])"
    by (simp add: prod_eq_iff)
  moreover from inst [where kws = ?kws'] h2 b2
  have "octolint_unused_projects_wrapper (\<lambda>a. a) (Some ?f) (?kws' @ ?extra') []
      = (PyStr ''Default'', [(''Unexpected Key: space_name'', ''Value: {value}'')])"
    by (simp add: prod_eq_iff)
  ultimately show ?thesis by simp
qed

subsection \<open>The tail of the deployment log\<close>

lemma py_slice_from_tail:
  "0 < b \<Longrightarrow> b < int (length xs) \<Longrightarrow> py_slice_from xs (- b) = drop (length xs - nat b) xs"
  by (simp add: py_slice_from_def Let_def nat_diff_distrib' max_def)

lemma py_slice_from_all:
  "0 < b \<Longrightarrow> int (length xs) \<le> b \<Longrightarrow> py_slice_from xs (- b) = xs"
  by (simp add: py_slice_from_def Let_def max_def)

text \<open>
  C3. In \<open>logs_callback\<close>, with a positive character budget \<open>max_chars\<close>, a fetched
  log longer than the budget reaches the language model as its final \<open>max_chars\<close>
  characters exactly (the log is some head followed by that context, whose length is
  \<open>max_chars\<close>); a log no longer than the budget reaches it unchanged.
\<close>

theorem logs_callback_keeps_tail:
  assumes "0 < max_chars"
    and "resolve q = Inr a"
    and "get_logs a rel = Inr logs"
  shows "(max_chars < int (length logs) \<longrightarrow>
           logs_callback max_chars resolve get_logs upd llm q msgs rel
             = llm msgs [(''input'', upd q a), (''context'', drop (length logs - nat max_chars) logs)]
           \<and> int (length (drop (length logs - nat max_chars) logs)) = max_chars
           \<and> (\<exists>hd. logs = hd @ drop (length logs - nat max_chars) logs))
       \<and> (int (length logs) \<le> max_chars \<longrightarrow>
           logs_callback max_chars resolve get_logs upd llm q msgs rel
             = llm msgs [(''input'', upd q a), (''context'', logs)])"
proof (intro conjI impI)
  assume long: "max_chars < int (length logs)"
  with assms show "logs_callback max_chars resolve get_logs upd llm q msgs rel
      = llm msgs [(''input'', upd q a), (''context'', drop (length logs - nat max_chars) logs)]"
    by (simp add: logs_callback_def Let_def py_slice_from_tail)
  from long assms(1) show "int (length (drop (length logs - nat max_chars) logs)) = max_chars"
    by simp
  have "logs = take (length logs - nat max_chars) logs @ drop (length logs - nat max_chars) logs"
    by simp
  then show "\<exists>hd. logs = hd @ drop (length logs - nat max_chars) logs" ..
next
  assume "int (length logs) \<le> max_chars"
  with assms show "logs_callback max_chars resolve get_logs upd llm q msgs rel
      = llm msgs [(''input'', upd q a), (''context'', logs)]"
    by (simp add: logs_callback_def Let_def py_slice_from_all)
qed

theorem logs_callback_keeps_tail_witness:
  "(0::int) < 3
   \<and> logs_callback 3 (\<lambda>q. Inr ()) (\<lambda>a r. Inr ''line1 line2 end'') (\<lambda>q a. q) (\<lambda>m c. Inr c)
        ''why did it fail'' () PyNone
       = Inr [(''input'', ''why did it fail''), (''context'', ''end'')]
   \<and> logs_callback 3 (\<lambda>q. Inr ()) (\<lambda>a r. Inr ''ok'') (\<lambda>q a. q) (\<lambda>m c. Inr c)
        ''why did it fail'' () PyNone
       = Inr [(''input'', ''why did it fail''), (''context'', ''ok'')]"
  using logs_callback_keeps_tail [of 3 "\<lambda>q. Inr ()" "''why did it fail''" "()"
      "\<lambda>a r. Inr ''line1 line2 end''" PyNone "''line1 line2 end''" "\<lambda>q a. q" "\<lambda>m c. Inr c" "()"]
    logs_callback_keeps_tail [of 3 "\<lambda>q. Inr ()" "''why did it fail''" "()"
      "\<lambda>a r. Inr ''ok''" PyNone "''ok''" "\<lambda>q a. q" "\<lambda>m c. Inr c" "()"]
  by simp

subsection \<open>The chat handler\<close>

lemma request_config_details_well_formed:
  "well_formed_stream c (fst (request_config_details c l))"
  by (auto simp: request_config_details_def well_formed_stream_def sse_framed_def
      get_sse_headers_def split: option.splits)

lemma handle_exception_well_formed: "well_formed_stream c (fst (handle_exception c e l))"
proof (cases e)
  case UserNotConfigured
  then show ?thesis by (simp add: request_config_details_well_formed)
next
  case OctopusApiKeyInvalid
  then show ?thesis by (simp add: request_config_details_well_formed)
qed (auto simp: well_formed_stream_def sse_framed_def HttpResponse_def get_sse_headers_def)

lemma try_body_well_formed:
  "try_body c req l = (Inr r, l') \<Longrightarrow> well_formed_stream c r"
  by (auto simp: try_body_def well_formed_stream_def sse_framed_def HttpResponse_def
      get_sse_headers_def Let_def split: prod.splits if_splits sum.splits)

lemma handler_well_formed: "well_formed_stream c (fst (copilot_handler_internal c req l))"
proof (cases "try_body c req l")
  case (Pair res l1)
  then show ?thesis
    by (cases res) (auto simp: copilot_handler_internal_def handle_exception_well_formed
        dest: try_body_well_formed)
qed


text \<open>
  C5. Whatever exception \<open>e\<close> is raised inside \<open>copilot_handler_internal\<close>
  (\<open>UserNotLoggedIn\<close>, \<open>OctopusRequestFailed\<close>, \<open>GitHubRequestFailed\<close>, \<open>NotAuthorized\<close>,
  \<open>SpaceNotFound\<close>, \<open>ResourceNotFound\<close>, \<open>UserNotConfigured\<close>, \<open>OctopusApiKeyInvalid\<close>,
  \<open>ValueError\<close> or any other), its \<open>except\<close> clause returns a response whose headers
  are \<open>Content-Type: text/event-stream\<close> and \<open>Cache-Control: no-cache\<close> and whose body
  is framed for the event stream; and when the \<open>try\<close> block raises \<open>e\<close>, that
  response is what the handler returns: the exception does not leave the handler.
\<close>

theorem exceptions_yield_stream_response:
  "well_formed_stream c (fst (handle_exception c e l'))
   \<and> (try_body c req l = (Inl e, l') \<longrightarrow>
        copilot_handler_internal c req l = handle_exception c e l'
        \<and> well_formed_stream c (fst (copilot_handler_internal c req l)))"
  by (simp add: handle_exception_well_formed copilot_handler_internal_def)

theorem exceptions_yield_stream_response_witness:
  "try_body
      \<lparr>convert_to_sse_response = (\<lambda>s. ''data: '' @ s @ [CHR 0x0A, CHR 0x0A]),
       json_loads = (\<lambda>s. Inl ValueError),
       llm_tool_query_call_function = (\<lambda>q. Inl (SpaceNotFound ''Dev'')),
       NO_FUNCTION_RESPONSE = ''Sorry'', environ = (\<lambda>k. None), quote = (\<lambda>s. s)\<rparr>
      \<lparr>params = [(''message'', ''list projects'')], get_body = ''''\<rparr>
      \<lparr>dispatched = [], handled = []\<rparr>
     = (Inl (SpaceNotFound ''Dev''), \<lparr>dispatched = [''list projects''], handled = []\<rparr>)
   \<and> well_formed_stream
      \<lparr>convert_to_sse_response = (\<lambda>s. ''data: '' @ s @ [CHR 0x0A, CHR 0x0A]),
       json_loads = (\<lambda>s. Inl ValueError),
       llm_tool_query_call_function = (\<lambda>q. Inl (SpaceNotFound ''Dev'')),
       NO_FUNCTION_RESPONSE = ''Sorry'', environ = (\<lambda>k. None), quote = (\<lambda>s. s)\<rparr>
      (fst (copilot_handler_internal
        \<lparr>convert_to_sse_response = (\<lambda>s. ''data: '' @ s @ [CHR 0x0A, CHR 0x0A]),
         json_loads = (\<lambda>s. Inl ValueError),
         llm_tool_query_call_function = (\<lambda>q. Inl (SpaceNotFound ''Dev'')),
         NO_FUNCTION_RESPONSE = ''Sorry'', environ = (\<lambda>k. None), quote = (\<lambda>s. s)\<rparr>
        \<lparr>params = [(''message'', ''list projects'')], get_body = ''''\<rparr>
        \<lparr>dispatched = [], handled = []\<rparr>))"
proof -
  let ?c = "\<lparr>convert_to_sse_response = (\<lambda>s. ''data: '' @ s @ [CHR 0x0A, CHR 0x0A]),
       json_loads = (\<lambda>s. Inl ValueError),
       llm_tool_query_call_function = (\<lambda>q. Inl (SpaceNotFound ''Dev'')),
       NO_FUNCTION_RESPONSE = ''Sorry'', environ = (\<lambda>k. None), quote = (\<lambda>s. s)\<rparr>"
  let ?req = "\<lparr>params = [(''message'', ''list projects'')], get_body = ''''\<rparr>"
  let ?l = "\<lparr>dispatched = [], handled = []\<rparr>"
  let ?l' = "\<lparr>dispatched = [''list projects''], handled = []\<rparr>"
  have raised: "try_body ?c ?req ?l = (Inl (SpaceNotFound ''Dev''), ?l')"
    by (simp add: try_body_def extract_query_def py_strip_def py_isspace_def)
  from exceptions_yield_stream_response [of ?c "SpaceNotFound ''Dev''" ?l' ?req ?l] raised
  show ?thesis by simp
qed



subsection \<open>The deployments of a project: calls and results of the loop body\<close>




lemma enrich_Some:
  assumes "enrich m v rel d s = (Inr (Some r), s')"
  shows "\<not> skip_environment (environments v) d"
    and "\<not> skip_tenant (tenants v) d"
    and "skip_date (parse_unknown_format_date m) (dates v) d = Inr False"
    and "\<exists>task s1 channel.
           fetch_task m v d s = (Inr task, s1)
           \<and> api (GetChannel (ChannelId d))
                (get_channel_cached m (space_id v) (ChannelId d) (api_key v) (octopus_url v)) s1
               = (Inr channel, s')
           \<and> deployment_record m v rel d task channel = Inr r"
  using assms
  by (auto simp: enrich_def split: if_splits sum.splits prod.splits bool.splits)

subsection \<open>The result cap\<close>

lemma inner_loop_length:
  "inner_loop m v rel ds acc s = (Inr acc', s') \<Longrightarrow>
     length acc \<le> length acc'
     \<and> int (length acc') \<le> max (int (length acc) + 1) (max_results v)"
proof (induction ds arbitrary: acc s)
  case Nil
  then show ?case by simp
next
  case (Cons d ds)
  obtain res s1 where e: "enrich m v rel d s = (res, s1)"
    by (cases "enrich m v rel d s")
  show ?case
  proof (cases res)
    case (Inl x)
    with e Cons.prems show ?thesis by simp
  next
    case (Inr opt)
    show ?thesis
    proof (cases opt)
      case None
      with e Inr Cons.prems have "inner_loop m v rel ds acc s1 = (Inr acc', s')" by simp
      from Cons.IH [OF this] show ?thesis .
    next
      case (Some r)
      show ?thesis
      proof (cases "max_results v \<le> int (length (acc @ [r]))")
        case True
        with e Inr Some Cons.prems have "acc' = acc @ [r]" by (simp add: Let_def)
        then show ?thesis by simp
      next
        case False
        with e Inr Some Cons.prems
        have "inner_loop m v rel ds (acc @ [r]) s1 = (Inr acc', s')" by (simp add: Let_def)
        from Cons.IH [OF this] False show ?thesis by simp
      qed
    qed
  qed
qed


lemma py_slice_to_length:
  "0 \<le> i \<Longrightarrow> int (length (py_slice_to xs i)) \<le> i"
  by (simp add: py_slice_to_def Let_def)


lemma py_slice_to_length_le: "length (py_slice_to xs i) \<le> length xs"
  by (simp add: py_slice_to_def Let_def)

lemma prepare_locals:
  assumes "prepare m sp pn envs tens key url dts cap s = (Inr (v, rs), s4)"
  shows "max_results v = cap" and "dates v = dts"
  using assms
  by (auto simp: prepare_def split: sum.splits prod.splits)

text \<open>The function returns the slice of what the outer loop collected from \<open>[]\<close>.\<close>

lemma get_deployments_for_project_Inr:
  assumes "get_deployments_for_project m sp pn envs tens key url dts cap s = (Inr result, s')"
  obtains v rs s4 acc where
    "prepare m sp pn envs tens key url dts cap s = (Inr (v, rs), s4)"
    and "outer_loop m v rs [] s4 = (Inr acc, s')"
    and "result = py_slice_to acc cap"
  using assms
  unfolding get_deployments_for_project_def
  by (auto split: sum.splits prod.splits)

subsection \<open>Early exit\<close>

lemma inner_loop_stops:
  assumes "inner_loop m v rel ds1 acc s = (Inr acc1, s1)"
    and "max_results v \<le> int (length acc1)"
    and "length acc < length acc1"
  shows "inner_loop m v rel (ds1 @ ds2) acc s = (Inr acc1, s1)"
  using assms
proof (induction ds1 arbitrary: acc s)
  case Nil
  then show ?case by simp
next
  case (Cons d ds)
  obtain res s' where e: "enrich m v rel d s = (res, s')"
    by (cases "enrich m v rel d s")
  show ?case
  proof (cases res)
    case (Inl x)
    with e Cons.prems show ?thesis by simp
  next
    case (Inr opt)
    show ?thesis
    proof (cases opt)
      case None
      with e Inr Cons.prems have "inner_loop m v rel ds acc s' = (Inr acc1, s1)" by simp
      from Cons.IH [OF this Cons.prems(2,3)] e Inr None show ?thesis by simp
    next
      case (Some r)
      show ?thesis
      proof (cases "max_results v \<le> int (length (acc @ [r]))")
        case True
        with e Inr Some Cons.prems show ?thesis by (simp add: Let_def)
      next
        case False
        with e Inr Some Cons.prems
        have run: "inner_loop m v rel ds (acc @ [r]) s' = (Inr acc1, s1)"
          by (simp add: Let_def)
        from inner_loop_length [OF run] False Cons.prems(2)
        have "length (acc @ [r]) < length acc1" by simp
        from Cons.IH [OF run Cons.prems(2) this] e Inr Some False show ?thesis
          by (simp add: Let_def)
      qed
    qed
  qed
qed

lemma outer_loop_stops:
  assumes "outer_loop m v rs1 acc s = (Inr acc1, s1)"
    and "max_results v \<le> int (length acc1)"
    and "rs1 \<noteq> []"
  shows "outer_loop m v (rs1 @ rs2) acc s = (Inr acc1, s1)"
  using assms
proof (induction rs1 arbitrary: acc s)
  case Nil
  then show ?case by simp
next
  case (Cons r rs)
  obtain res s' where f: "api (GetReleaseDeployments (ID r))
      (get_release_deployments m (space_id v) (ID r) (api_key v) (octopus_url v)) s = (res, s')"
    by (cases "api (GetReleaseDeployments (ID r))
      (get_release_deployments m (space_id v) (ID r) (api_key v) (octopus_url v)) s")
  show ?case
  proof (cases res)
    case (Inl x)
    with f Cons.prems show ?thesis by simp
  next
    case (Inr ds)
    obtain res2 s2 where i: "inner_loop m v r ds acc s' = (res2, s2)"
      by (cases "inner_loop m v r ds acc s'")
    show ?thesis
    proof (cases res2)
      case (Inl x)
      with f Inr i Cons.prems show ?thesis by simp
    next
      case inner: (Inr acc2)
      show ?thesis
      proof (cases "max_results v \<le> int (length acc2)")
        case True
        with f Inr i inner Cons.prems show ?thesis by simp
      next
        case False
        with f Inr i inner Cons.prems
        have run: "outer_loop m v rs acc2 s2 = (Inr acc1, s1)" by simp
        have "rs \<noteq> []"
        proof
          assume "rs = []"
          with run have "acc1 = acc2" by simp
          with False Cons.prems(2) show False by simp
        qed
        from Cons.IH [OF run Cons.prems(2) this] f Inr i inner False show ?thesis by simp
      qed
    qed
  qed
qed

lemma first_releases_only_fields:
  "ensure_string_not_empty (first_releases_only k m) = ensure_string_not_empty m"
  "get_project (first_releases_only k m) = get_project m"
  "sanitize_list (first_releases_only k m) = sanitize_list m"
  "get_environment_cached (first_releases_only k m) = get_environment_cached m"
  "get_tenant_cached (first_releases_only k m) = get_tenant_cached m"
  "get_release_deployments (first_releases_only k m) = get_release_deployments m"
  "parse_unknown_format_date (first_releases_only k m) = parse_unknown_format_date m"
  "get_task (first_releases_only k m) = get_task m"
  "get_channel_cached (first_releases_only k m) = get_channel_cached m"
  "get_key_or_none (first_releases_only k m) = get_key_or_none m"
  "strip_markdown_urls (first_releases_only k m) = strip_markdown_urls m"
  by (simp_all add: first_releases_only_def)

lemma fetch_task_first_releases_only:
  "fetch_task (first_releases_only k m) v d s = fetch_task m v d s"
  unfolding fetch_task_def first_releases_only_fields by (rule refl)

lemma deployment_record_first_releases_only:
  "deployment_record (first_releases_only k m) v rel d t c = deployment_record m v rel d t c"
  unfolding deployment_record_def first_releases_only_fields by (rule refl)

lemma enrich_first_releases_only:
  "enrich (first_releases_only k m) v rel d s = enrich m v rel d s"
  unfolding enrich_def fetch_task_first_releases_only deployment_record_first_releases_only
    first_releases_only_fields
  by (rule refl)

lemma inner_loop_first_releases_only:
  "inner_loop (first_releases_only k m) v rel ds acc s = inner_loop m v rel ds acc s"
  by (induction ds arbitrary: acc s)
    (simp_all add: enrich_first_releases_only Let_def
      cong: prod.case_cong sum.case_cong option.case_cong if_cong)

lemma outer_loop_first_releases_only:
  "outer_loop (first_releases_only k m) v rs acc s = outer_loop m v rs acc s"
  by (induction rs arbitrary: acc s)
    (simp_all add: inner_loop_first_releases_only first_releases_only_fields
      cong: prod.case_cong sum.case_cong if_cong)

lemma prepare_first_releases_only:
  "prepare (first_releases_only k m) sp pn envs tens key url dts cap s
     = (case prepare m sp pn envs tens key url dts cap s of
          (Inl e, s4) \<Rightarrow> (Inl e, s4)
        | (Inr (v, rs), s4) \<Rightarrow> (Inr (v, take k rs), s4))"
  by (auto simp: prepare_def ensure_arguments_def first_releases_only_fields api_def
      first_releases_only_def split: sum.splits prod.splits)

lemma first_releases_only_run:
  assumes "0 < k"
    and "get_deployments_for_project (first_releases_only k m) sp pn envs tens key url dts cap s
           = (Inr result, s')"
    and "cap \<le> int (length result)"
  shows "get_deployments_for_project m sp pn envs tens key url dts cap s = (Inr result, s')"
proof -
  let ?m = "first_releases_only k m"
  from assms(2) obtain v rs' s4 acc where
    prep': "prepare ?m sp pn envs tens key url dts cap s = (Inr (v, rs'), s4)"
    and loop': "outer_loop ?m v rs' [] s4 = (Inr acc, s')"
    and result: "result = py_slice_to acc cap"
    by (rule get_deployments_for_project_Inr)
  from prep' obtain rs where
    prep: "prepare m sp pn envs tens key url dts cap s = (Inr (v, rs), s4)"
    and rs': "rs' = take k rs"
    by (auto simp: prepare_first_releases_only split: sum.splits prod.splits)
  from loop' rs' have loop: "outer_loop m v (take k rs) [] s4 = (Inr acc, s')"
    by (simp add: outer_loop_first_releases_only)
  from prepare_locals(1) [OF prep] have cap: "max_results v = cap" .
  from assms(3) result py_slice_to_length_le [of acc cap]
  have reached: "max_results v \<le> int (length acc)"
    unfolding cap by simp
  have "outer_loop m v (take k rs @ drop k rs) [] s4 = (Inr acc, s')"
  proof (cases "take k rs = []")
    case True
    with assms(1) have "rs = []" by simp
    with loop show ?thesis by simp
  next
    case False
    from outer_loop_stops [OF loop reached False] show ?thesis .
  qed
  then have "outer_loop m v rs [] s4 = (Inr acc, s')" by simp
  with prep result show ?thesis
    by (simp add: get_deployments_for_project_def)
qed

lemmas sample_defs =
  sample_call_def get_deployments_for_project_def prepare_def ensure_arguments_def
  sample_platform_def sample_world_def sample_releases_def sample_release_deployments_def
  sample_deployment_def sample_environment_def api_def enrich_def skip_environment_def
  skip_tenant_def skip_date_def fetch_task_def deployment_record_def name_of_match_def
  opt_str_def py_slice_to_def returned_ids_def first_releases_only_def sample_locals_def Let_def

text \<open>
  C1. A call of \<open>get_deployments_for_project\<close> with a cap \<open>max_results \<ge> 0\<close> that
  returns, returns at most \<open>max_results\<close> records. Collection stops when the cap is
  reached. Across releases: if the call made on a platform that lists only the first
  \<open>k\<close> releases returns a list that reaches the cap, the call made on the whole platform
  is the same call, with the same result, the same calls to the platform and the same
  platform state, so nothing is fetched for a later release; in the outer loop, a run
  over \<open>rs1\<close> that ends with the cap reached is the run over \<open>rs1 @ rs2\<close>. Within a
  release: a run of the inner loop over \<open>ds1\<close> in which a record was appended and the
  cap reached is the run over \<open>ds1 @ ds2\<close>, so no later deployment is scanned.
\<close>

theorem result_cap_and_early_exit:
  "(0 \<le> cap \<and> get_deployments_for_project m sp pn envs tens key url dts cap s = (Inr result, s')
      \<longrightarrow> int (length result) \<le> cap)
   \<and> (0 < k
        \<and> get_deployments_for_project (first_releases_only k m) sp pn envs tens key url dts cap s
            = (Inr result, s')
        \<and> cap \<le> int (length result)
      \<longrightarrow> get_deployments_for_project m sp pn envs tens key url dts cap s = (Inr result, s'))
   \<and> (outer_loop m v rs1 acc s = (Inr acc1, s1) \<and> max_results v \<le> int (length acc1) \<and> rs1 \<noteq> []
      \<longrightarrow> outer_loop m v (rs1 @ rs2) acc s = (Inr acc1, s1))
   \<and> (inner_loop m v rel ds1 acc s = (Inr acc1, s1) \<and> max_results v \<le> int (length acc1)
        \<and> length acc < length acc1
      \<longrightarrow> inner_loop m v rel (ds1 @ ds2) acc s = (Inr acc1, s1))"
proof (intro conjI impI)
  assume a: "0 \<le> cap
    \<and> get_deployments_for_project m sp pn envs tens key url dts cap s = (Inr result, s')"
  then obtain acc where "result = py_slice_to acc cap"
    by (blast elim: get_deployments_for_project_Inr)
  with a show "int (length result) \<le> cap"
    by (simp add: py_slice_to_length)
next
  assume "0 < k
    \<and> get_deployments_for_project (first_releases_only k m) sp pn envs tens key url dts cap s
        = (Inr result, s')
    \<and> cap \<le> int (length result)"
  then show "get_deployments_for_project m sp pn envs tens key url dts cap s = (Inr result, s')"
    by (blast intro: first_releases_only_run)
next
  assume "outer_loop m v rs1 acc s = (Inr acc1, s1) \<and> max_results v \<le> int (length acc1)
    \<and> rs1 \<noteq> []"
  then show "outer_loop m v (rs1 @ rs2) acc s = (Inr acc1, s1)"
    by (blast intro: outer_loop_stops)
next
  assume "inner_loop m v rel ds1 acc s = (Inr acc1, s1) \<and> max_results v \<le> int (length acc1)
    \<and> length acc < length acc1"
  then show "inner_loop m v rel (ds1 @ ds2) acc s = (Inr acc1, s1)"
    by (blast intro: inner_loop_stops)
qed

text \<open>
  On the sample platform with the cap 1: the first release alone fills the cap, the
  call on the whole platform is the same call, and its only fetch of deployments is that
  of the first release. In the inner loop over the two deployments of \<open>Releases-1\<close>, the
  first fills the cap and the second is not looked up.
\<close>

theorem result_cap_and_early_exit_witness:
  "returned_ids (sample_call (first_releases_only 1 sample_platform) PyNone PyNone 1)
     = Some [PyStr ''Deployments-3'']
   \<and> sample_call sample_platform PyNone PyNone 1
     = sample_call (first_releases_only 1 sample_platform) PyNone PyNone 1
   \<and> calls (snd (sample_call sample_platform PyNone PyNone 1))
     = [GetProject ''WebApp'', GetProjectReleases ''Projects-1'',
        GetReleaseDeployments ''Releases-2'', GetTask ''ServerTasks-1'',
        GetChannel ''Channels-1'']
   \<and> calls (snd (inner_loop sample_platform (sample_locals 1) (sample_releases ! 1)
         ([sample_deployment ''Deployments-1'' ''Releases-1'' ''Environments-1'' ''2024-01-05'']
          @ [sample_deployment ''Deployments-2'' ''Releases-1'' ''Environments-1'' ''2024-01-20''])
         [] sample_world))
     = [GetTask ''ServerTasks-1'', GetChannel ''Channels-1'']"
proof -
  obtain result s' where
    run: "sample_call (first_releases_only 1 sample_platform) PyNone PyNone 1 = (Inr result, s')"
    and len: "length result = 1"
    and ids: "returned_ids (Inr result, s') = Some [PyStr ''Deployments-3'']"
    and log: "calls s' = [GetProject ''WebApp'', GetProjectReleases ''Projects-1'',
        GetReleaseDeployments ''Releases-2'', GetTask ''ServerTasks-1'',
        GetChannel ''Channels-1'']"
    by (simp add: sample_defs)
  from run len
  have hyp: "(0::nat) < 1
    \<and> get_deployments_for_project (first_releases_only 1 sample_platform) ''Spaces-1'' ''WebApp''
         PyNone PyNone ''API-KEY'' ''https://octopus.example'' PyNone 1 sample_world
        = (Inr result, s')
    \<and> (1::int) \<le> int (length result)"
    by (simp add: sample_call_def)
  let ?d1 = "sample_deployment ''Deployments-1'' ''Releases-1'' ''Environments-1'' ''2024-01-05''"
  let ?d2 = "sample_deployment ''Deployments-2'' ''Releases-1'' ''Environments-1'' ''2024-01-20''"
  obtain acc1 s1 where
    inner: "inner_loop sample_platform (sample_locals 1) (sample_releases ! 1) [?d1] []
        sample_world = (Inr acc1, s1)"
    and len1: "length acc1 = 1"
    and log1: "calls s1 = [GetTask ''ServerTasks-1'', GetChannel ''Channels-1'']"
    by (simp add: sample_defs)
  from inner len1
  have hyp1: "inner_loop sample_platform (sample_locals 1) (sample_releases ! 1) [?d1] []
        sample_world = (Inr acc1, s1)
      \<and> max_results (sample_locals 1) \<le> int (length acc1)
      \<and> length ([] :: (string \<times> pyval) list list) < length acc1"
    by (simp add: sample_locals_def)
  note inst = result_cap_and_early_exit [where cap = 1 and m = sample_platform
      and sp = "''Spaces-1''" and pn = "''WebApp''" and envs = PyNone and tens = PyNone
      and key = "''API-KEY''" and url = "''https://octopus.example''" and dts = PyNone
      and s = sample_world and result = result and s' = s' and k = 1
      and v = "sample_locals 1" and rel = "sample_releases ! 1" and ?ds1.0 = "[?d1]"
      and acc = "[]" and ?acc1.0 = acc1 and ?s1.0 = s1 and ?ds2.0 = "[?d2]"]
  from inst hyp have "sample_call sample_platform PyNone PyNone 1 = (Inr result, s')"
    by (simp add: sample_call_def)
  moreover from inst hyp1
  have "inner_loop sample_platform (sample_locals 1) (sample_releases ! 1) ([?d1] @ [?d2]) []
      sample_world = (Inr acc1, s1)"
    by blast
  ultimately show ?thesis
    using run ids log log1 by simp
qed

subsection \<open>The filters\<close>

lemma map_fetch_length:
  "map_fetch c f sp key url names s = (Inr xs, s') \<Longrightarrow> length xs = length names"
proof (induction names arbitrary: xs s)
  case Nil
  then show ?case by simp
next
  case (Cons n ns)
  then show ?case
    by (auto split: prod.splits sum.splits)
qed

lemma prepare_filters:
  assumes "prepare m sp pn envs tens key url dts cap s = (Inr (v, rs), s4)"
  shows "length (environments v) = length (sanitize_list m envs)"
    and "length (tenants v) = length (sanitize_list m tens)"
  using assms
  by (auto simp: prepare_def split: sum.splits prod.splits dest: map_fetch_length)

lemma skip_environment_iff:
  "(\<not> skip_environment es d) = (es = [] \<or> EnvironmentId d \<in> ID ` set es)"
proof -
  have "(filter (\<lambda>x. ID x = EnvironmentId d) es = []) = (EnvironmentId d \<notin> ID ` set es)"
    unfolding filter_empty_conv by force
  then show ?thesis
    by (auto simp: skip_environment_def)
qed

lemma skip_tenant_iff:
  "(\<not> skip_tenant ts d) = (ts = [] \<or> TenantId d \<in> Some ` ID ` set ts)"
proof -
  have "(filter (\<lambda>x. Some (ID x) = TenantId d) ts = []) = (TenantId d \<notin> Some ` ID ` set ts)"
    unfolding filter_empty_conv by force
  then show ?thesis
    by (auto simp: skip_tenant_def)
qed

text \<open>
  C4. The environment filter keeps a deployment exactly when the list of requested
  environments is empty or one of them has the deployment's \<open>EnvironmentId\<close>; the
  tenant filter keeps it exactly when the list of requested tenants is empty or one of
  them has the deployment's \<open>TenantId\<close>; each looks at its own list only, and an empty
  list keeps every deployment. The lists are empty exactly when the sanitized names
  requested are. A deployment that a filter does not keep is skipped with no lookup; a
  deployment for which a record is built was kept by both.
\<close>

theorem filters_keep_exactly:
  "(\<not> skip_environment es d) = (es = [] \<or> EnvironmentId d \<in> ID ` set es)
   \<and> (\<not> skip_tenant ts d) = (ts = [] \<or> TenantId d \<in> Some ` ID ` set ts)
   \<and> (prepare m sp pn envs tens key url dts cap s0 = (Inr (v, rs), s4) \<longrightarrow>
        (environments v = []) = (sanitize_list m envs = [])
        \<and> (tenants v = []) = (sanitize_list m tens = []))
   \<and> (skip_environment (environments v) d \<or> skip_tenant (tenants v) d \<longrightarrow>
        enrich m v rel d s = (Inr None, s))
   \<and> (enrich m v rel d s = (Inr (Some r), s') \<longrightarrow>
        (environments v = [] \<or> EnvironmentId d \<in> ID ` set (environments v))
        \<and> (tenants v = [] \<or> TenantId d \<in> Some ` ID ` set (tenants v)))"
proof (intro conjI impI)
  show "(\<not> skip_environment es d) = (es = [] \<or> EnvironmentId d \<in> ID ` set es)"
    by (rule skip_environment_iff)
  show "(\<not> skip_tenant ts d) = (ts = [] \<or> TenantId d \<in> Some ` ID ` set ts)"
    by (rule skip_tenant_iff)
next
  assume p: "prepare m sp pn envs tens key url dts cap s0 = (Inr (v, rs), s4)"
  from prepare_filters(1) [OF p] show "(environments v = []) = (sanitize_list m envs = [])"
    by (metis length_0_conv)
  from prepare_filters(2) [OF p] show "(tenants v = []) = (sanitize_list m tens = [])"
    by (metis length_0_conv)
next
  assume "skip_environment (environments v) d \<or> skip_tenant (tenants v) d"
  then show "enrich m v rel d s = (Inr None, s)"
    by (auto simp: enrich_def)
next
  assume e: "enrich m v rel d s = (Inr (Some r), s')"
  from enrich_Some(1) [OF e]
  show "environments v = [] \<or> EnvironmentId d \<in> ID ` set (environments v)"
    by (simp add: skip_environment_iff)
  from enrich_Some(2) [OF e]
  show "tenants v = [] \<or> TenantId d \<in> Some ` ID ` set (tenants v)"
    by (simp add: skip_tenant_iff)
qed

text \<open>
  On the sample platform, with the environment \<open>Dev\<close> requested: the deployment to
  \<open>Environments-2\<close> is skipped without a lookup, and the two deployments to
  \<open>Environments-1\<close> are returned; with no environment requested all three are.
\<close>

theorem filters_keep_exactly_witness:
  "skip_environment [sample_environment ''Dev'']
     (sample_deployment ''Deployments-3'' ''Releases-2'' ''Environments-2'' ''2024-01-15'')
   \<and> enrich sample_platform ((sample_locals 10)\<lparr>environments := [sample_environment ''Dev'']\<rparr>)
        (sample_releases ! 0)
        (sample_deployment ''Deployments-3'' ''Releases-2'' ''Environments-2'' ''2024-01-15'')
        sample_world
       = (Inr None, sample_world)
   \<and> returned_ids (sample_call sample_platform (PyList [PyStr ''Dev'']) PyNone 10)
       = Some [PyStr ''Deployments-1'', PyStr ''Deployments-2'']
   \<and> returned_ids (sample_call sample_platform (PyList []) PyNone 10)
       = Some [PyStr ''Deployments-3'', PyStr ''Deployments-1'', PyStr ''Deployments-2'']"
proof -
  let ?d = "sample_deployment ''Deployments-3'' ''Releases-2'' ''Environments-2'' ''2024-01-15''"
  let ?v = "(sample_locals 10)\<lparr>environments := [sample_environment ''Dev'']\<rparr>"
  have skip: "skip_environment (environments ?v) ?d"
    by (simp add: sample_defs)
  then have hyp: "skip_environment (environments ?v) ?d \<or> skip_tenant (tenants ?v) ?d"
    by blast
  from filters_keep_exactly [where v = ?v and d = ?d and m = sample_platform
      and rel = "sample_releases ! 0" and s = sample_world] hyp
  have "enrich sample_platform ?v (sample_releases ! 0) ?d sample_world = (Inr None, sample_world)"
    by blast
  moreover from skip have "skip_environment [sample_environment ''Dev''] ?d"
    by (simp add: sample_locals_def)
  moreover have "returned_ids (sample_call sample_platform (PyList [PyStr ''Dev'']) PyNone 10)
       = Some [PyStr ''Deployments-1'', PyStr ''Deployments-2'']"
    by (simp add: sample_defs)
  moreover have "returned_ids (sample_call sample_platform (PyList []) PyNone 10)
       = Some [PyStr ''Deployments-3'', PyStr ''Deployments-1'', PyStr ''Deployments-2'']"
    by (simp add: sample_defs)
  ultimately show ?thesis by blast
qed

subsection \<open>The date range\<close>

lemma skip_date_range:
  assumes "parse a = Inr t1" and "parse b = Inr t2" and "parse (PyStr (Created d)) = Inr c"
  shows "skip_date parse (PyList [a, b]) d = Inr (\<not> (min t1 t2 \<le> c \<and> c \<le> max t1 t2))"
proof -
  have "(c < min t1 t2 \<or> c > max t1 t2) = (\<not> (min t1 t2 \<le> c \<and> c \<le> max t1 t2))"
    by (simp only: de_Morgan_conj not_le)
  with assms show ?thesis
    by (simp only: skip_date_def pyval.case list.case sum.case)
qed

lemma skip_date_swap:
  assumes "parse a = Inr t1" and "parse b = Inr t2"
  shows "skip_date parse (PyList [a, b]) d = skip_date parse (PyList [b, a]) d"
  using assms by (auto simp: skip_date_def min.commute max.commute split: sum.splits)

lemma fetch_task_dates: "fetch_task m (v\<lparr>dates := x\<rparr>) d s = fetch_task m v d s"
  unfolding fetch_task_def
  by (simp cong: option.case_cong if_cong prod.case_cong sum.case_cong)

lemma deployment_record_dates:
  "deployment_record m (v\<lparr>dates := x\<rparr>) rel d t c = deployment_record m v rel d t c"
  unfolding deployment_record_def
  by (simp cong: sum.case_cong)

lemma enrich_dates:
  assumes "skip_date (parse_unknown_format_date m) x d = skip_date (parse_unknown_format_date m) y d"
  shows "enrich m (v\<lparr>dates := x\<rparr>) rel d s = enrich m (v\<lparr>dates := y\<rparr>) rel d s"
  unfolding enrich_def using assms
  by (simp add: fetch_task_dates deployment_record_dates
      cong: sum.case_cong bool.case_cong prod.case_cong if_cong)

lemma inner_loop_dates:
  assumes "\<And>d. skip_date (parse_unknown_format_date m) x d
             = skip_date (parse_unknown_format_date m) y d"
  shows "inner_loop m (v\<lparr>dates := x\<rparr>) rel ds acc s = inner_loop m (v\<lparr>dates := y\<rparr>) rel ds acc s"
  by (induction ds arbitrary: acc s)
    (simp_all add: enrich_dates [OF assms] Let_def
      cong: prod.case_cong sum.case_cong option.case_cong if_cong)

lemma outer_loop_dates:
  assumes "\<And>d. skip_date (parse_unknown_format_date m) x d
             = skip_date (parse_unknown_format_date m) y d"
  shows "outer_loop m (v\<lparr>dates := x\<rparr>) rs acc s = outer_loop m (v\<lparr>dates := y\<rparr>) rs acc s"
  by (induction rs arbitrary: acc s)
    (simp_all add: inner_loop_dates [OF assms] cong: prod.case_cong sum.case_cong if_cong)

lemma prepare_dates:
  "prepare m sp pn envs tens key url x cap s
     = (case prepare m sp pn envs tens key url y cap s of
          (Inl e, s4) \<Rightarrow> (Inl e, s4)
        | (Inr (v, rs), s4) \<Rightarrow> (Inr (v\<lparr>dates := x\<rparr>, rs), s4))"
  by (auto simp: prepare_def split: sum.splits prod.splits)

lemma prepare_dates_self:
  "prepare m sp pn envs tens key url y cap s = (Inr (v, rs), s4) \<Longrightarrow> v\<lparr>dates := y\<rparr> = v"
  by (auto simp: prepare_def split: sum.splits prod.splits)

lemma get_deployments_for_project_dates:
  assumes "\<And>d. skip_date (parse_unknown_format_date m) x d
             = skip_date (parse_unknown_format_date m) y d"
  shows "get_deployments_for_project m sp pn envs tens key url x cap s
       = get_deployments_for_project m sp pn envs tens key url y cap s"
proof (cases "prepare m sp pn envs tens key url y cap s")
  case (Pair res s4)
  show ?thesis
  proof (cases res)
    case (Inl e)
    with Pair show ?thesis
      by (simp add: get_deployments_for_project_def prepare_dates [of m sp pn envs tens key url x cap s y])
  next
    case (Inr p)
    obtain v rs where p: "p = (v, rs)" by (cases p)
    from Pair Inr p have y: "prepare m sp pn envs tens key url y cap s = (Inr (v, rs), s4)"
      by simp
    then have x: "prepare m sp pn envs tens key url x cap s = (Inr (v\<lparr>dates := x\<rparr>, rs), s4)"
      by (simp add: prepare_dates [of m sp pn envs tens key url x cap s y])
    from outer_loop_dates [OF assms, of v rs "[]" s4] prepare_dates_self [OF y]
    have "outer_loop m (v\<lparr>dates := x\<rparr>) rs [] s4 = outer_loop m v rs [] s4"
      by simp
    with x y show ?thesis
      by (simp add: get_deployments_for_project_def)
  qed
qed

text \<open>
  C2. With two dates supplied, both of which parse, the date filter skips a deployment
  exactly when its creation time lies outside the closed interval from the earlier to
  the later date: a deployment created at either bound is kept. A deployment that
  passed the environment and tenant filters is dropped by the loop body exactly when it
  lies outside the interval. Swapping the two dates gives the same call: the same
  result, calls and platform state.
\<close>

theorem date_range_inclusive_and_symmetric:
  "(parse a = Inr t1 \<and> parse b = Inr t2 \<and> parse (PyStr (Created d)) = Inr c \<longrightarrow>
      skip_date parse (PyList [a, b]) d = Inr (\<not> (min t1 t2 \<le> c \<and> c \<le> max t1 t2)))
   \<and> (parse_unknown_format_date m a = Inr t1 \<and> parse_unknown_format_date m b = Inr t2
        \<and> parse_unknown_format_date m (PyStr (Created d)) = Inr c
        \<and> dates v = PyList [a, b]
        \<and> \<not> skip_environment (environments v) d \<and> \<not> skip_tenant (tenants v) d \<longrightarrow>
      (fst (enrich m v rel d s) = Inr None) = (\<not> (min t1 t2 \<le> c \<and> c \<le> max t1 t2)))
   \<and> (parse_unknown_format_date m a = Inr t1 \<and> parse_unknown_format_date m b = Inr t2 \<longrightarrow>
      get_deployments_for_project m sp pn envs tens key url (PyList [a, b]) cap s
        = get_deployments_for_project m sp pn envs tens key url (PyList [b, a]) cap s)"
proof (intro conjI impI)
  assume "parse a = Inr t1 \<and> parse b = Inr t2 \<and> parse (PyStr (Created d)) = Inr c"
  then show "skip_date parse (PyList [a, b]) d = Inr (\<not> (min t1 t2 \<le> c \<and> c \<le> max t1 t2))"
    by (simp add: skip_date_range)
next
  assume h: "parse_unknown_format_date m a = Inr t1 \<and> parse_unknown_format_date m b = Inr t2
        \<and> parse_unknown_format_date m (PyStr (Created d)) = Inr c
        \<and> dates v = PyList [a, b]
        \<and> \<not> skip_environment (environments v) d \<and> \<not> skip_tenant (tenants v) d"
  then have sd: "skip_date (parse_unknown_format_date m) (dates v) d
      = Inr (\<not> (min t1 t2 \<le> c \<and> c \<le> max t1 t2))"
    by (simp add: skip_date_range)
  show "(fst (enrich m v rel d s) = Inr None) = (\<not> (min t1 t2 \<le> c \<and> c \<le> max t1 t2))"
  proof (cases "min t1 t2 \<le> c \<and> c \<le> max t1 t2")
    case True
    with h sd show ?thesis
      by (auto simp: enrich_def split: prod.splits sum.splits)
  next
    case False
    with h sd show ?thesis
      by (auto simp: enrich_def)
  qed
next
  assume "parse_unknown_format_date m a = Inr t1 \<and> parse_unknown_format_date m b = Inr t2"
  then have "\<And>d. skip_date (parse_unknown_format_date m) (PyList [a, b]) d
      = skip_date (parse_unknown_format_date m) (PyList [b, a]) d"
    by (blast intro: skip_date_swap)
  then show "get_deployments_for_project m sp pn envs tens key url (PyList [a, b]) cap s
        = get_deployments_for_project m sp pn envs tens key url (PyList [b, a]) cap s"
    by (rule get_deployments_for_project_dates)
qed

text \<open>
  On the sample platform, whose deployments were created on 2024-01-15, 2024-01-05 and
  2024-01-20: the dates 2024-01-15 and 2024-01-05, in either order, keep the two
  deployments created on the bounds and drop the third.
\<close>

theorem date_range_inclusive_and_symmetric_witness:
  "returned_ids (sample_call sample_platform PyNone
       (PyList [PyStr ''2024-01-15'', PyStr ''2024-01-05'']) 10)
     = Some [PyStr ''Deployments-3'', PyStr ''Deployments-1'']
   \<and> sample_call sample_platform PyNone (PyList [PyStr ''2024-01-05'', PyStr ''2024-01-15'']) 10
     = sample_call sample_platform PyNone (PyList [PyStr ''2024-01-15'', PyStr ''2024-01-05'']) 10
   \<and> skip_date (parse_unknown_format_date sample_platform)
        (PyList [PyStr ''2024-01-15'', PyStr ''2024-01-05''])
        (sample_deployment ''Deployments-2'' ''Releases-1'' ''Environments-1'' ''2024-01-20'')
     = Inr True"
proof -
  let ?a = "PyStr ''2024-01-15''" and ?b = "PyStr ''2024-01-05''"
  let ?d = "sample_deployment ''Deployments-2'' ''Releases-1'' ''Environments-1'' ''2024-01-20''"
  have pa: "parse_unknown_format_date sample_platform ?a = Inr ''2024-01-15''"
    and pb: "parse_unknown_format_date sample_platform ?b = Inr ''2024-01-05''"
    and pc: "parse_unknown_format_date sample_platform (PyStr (Created ?d)) = Inr ''2024-01-20''"
    by (simp_all add: sample_platform_def sample_deployment_def)
  note inst = date_range_inclusive_and_symmetric [where parse = "parse_unknown_format_date sample_platform"
      and m = sample_platform and a = ?a and b = ?b and ?t1.0 = "''2024-01-15''"
      and ?t2.0 = "''2024-01-05''" and d = ?d and c = "''2024-01-20''"
      and sp = "''Spaces-1''" and pn = "''WebApp''" and envs = PyNone and tens = PyNone
      and key = "''API-KEY''" and url = "''https://octopus.example''" and cap = 10
      and s = sample_world]
  from inst pa pb pc
  have "skip_date (parse_unknown_format_date sample_platform) (PyList [?a, ?b]) ?d
      = Inr (\<not> (min ''2024-01-15'' ''2024-01-05'' \<le> ''2024-01-20''
                 \<and> ''2024-01-20'' \<le> max ''2024-01-15'' ''2024-01-05''))"
    by blast
  then have skipped: "skip_date (parse_unknown_format_date sample_platform) (PyList [?a, ?b]) ?d
      = Inr True"
    by (simp add: min_def max_def)
  from inst pa pb
  have swap: "sample_call sample_platform PyNone (PyList [?b, ?a]) 10
      = sample_call sample_platform PyNone (PyList [?a, ?b]) 10"
    unfolding sample_call_def by simp
  have "returned_ids (sample_call sample_platform PyNone (PyList [?a, ?b]) 10)
      = Some [PyStr ''Deployments-3'', PyStr ''Deployments-1'']"
    by (simp add: sample_defs min_def max_def)
  with skipped swap show ?thesis by simp
qed

subsection \<open>Enrichment and the cap\<close>











subsection \<open>The platform's state and the log of calls\<close>



















end
